theory Spec2Isabelle
  imports Complex_Main "HOL-Library.Sublist" "HOL-Library.AList" "HOL-Library.Multiset"
begin

section \<open>JavaScript values, errors and the runtime\<close>

text \<open>
  The values the server handles: request bodies and query parameters, the fields of
  Firestore documents and the results of \<^verbatim>\<open>JSON.parse\<close>. The value \<^verbatim>\<open>undefined\<close>
  (a missing property, a missing argument) is \<open>None\<close> of \<open>json option\<close>.
  A number is the rational it denotes: the rounding to a binary64 value is not modelled, and
  NaN and the infinities are not values a store record, a request or a parsed text holds.
  A string is a list of 8-bit code units (Latin-1).
\<close>

datatype json =
    JNull
  | JBool bool
  | JNum rat
  | JStr string
  | JArr "json list"
  | JObj "(string \<times> json) list"

type_synonym obj = "(string \<times> json) list"

text \<open>A thrown exception, with its message (\<^verbatim>\<open>error.message\<close>).\<close>

datatype error =
    Error string
  | TypeError string
  | SyntaxError string
  | ReferenceError string

fun error_message :: "error \<Rightarrow> string" where
  "error_message (Error m) = m"
| "error_message (TypeError m) = m"
| "error_message (SyntaxError m) = m"
| "error_message (ReferenceError m) = m"

text \<open>Truthiness, as tested by \<^verbatim>\<open>if (x)\<close>, \<^verbatim>\<open>!x\<close>, \<^verbatim>\<open>x && y\<close>, \<^verbatim>\<open>x || y\<close> and \<^verbatim>\<open>Boolean\<close>.\<close>

fun truthy :: "json option \<Rightarrow> bool" where
  "truthy None = False"
| "truthy (Some JNull) = False"
| "truthy (Some (JBool b)) = b"
| "truthy (Some (JNum r)) = (r \<noteq> 0)"
| "truthy (Some (JStr s)) = (s \<noteq> [])"
| "truthy (Some (JArr xs)) = True"
| "truthy (Some (JObj fs)) = True"

text \<open>
  Strict equality \<^verbatim>\<open>x === y\<close>. Two arrays or objects are equal only when they are the
  same reference; the operands compared by the server come from different sources (a store
  record and a parsed reply, or two store records of different collections), so such
  operands are never equal.
\<close>

fun strict_equals :: "json option \<Rightarrow> json option \<Rightarrow> bool" where
  "strict_equals None None = True"
| "strict_equals (Some JNull) (Some JNull) = True"
| "strict_equals (Some (JBool a)) (Some (JBool b)) = (a = b)"
| "strict_equals (Some (JNum a)) (Some (JNum b)) = (a = b)"
| "strict_equals (Some (JStr a)) (Some (JStr b)) = (a = b)"
| "strict_equals x y = False"

text \<open>
  Reading a property \<^verbatim>\<open>v.k\<close> of a value: \<^verbatim>\<open>null\<close> throws, an object gives the field or
  \<^verbatim>\<open>undefined\<close>, and every other value has none of the properties the server reads
  (\<^verbatim>\<open>id\<close>, \<^verbatim>\<open>relevance\<close>).
\<close>

fun getprop :: "json \<Rightarrow> string \<Rightarrow> error + json option" where
  "getprop JNull k = Inl (TypeError (''Cannot read properties of null (reading '' @ k @ '')''))"
| "getprop (JObj fs) k = Inr (map_of fs k)"
| "getprop v k = Inr None"

subsection \<open>Strings\<close>

definition toLowerCase_char :: "char \<Rightarrow> char" where
  "toLowerCase_char c =
     (let n = (of_char c :: nat)
      in if (65 \<le> n \<and> n \<le> 90) \<or> (192 \<le> n \<and> n \<le> 222 \<and> n \<noteq> 215)
         then char_of (n + 32) else c)"

definition toLowerCase :: "string \<Rightarrow> string" where
  "toLowerCase s = map toLowerCase_char s"

text \<open>\<^verbatim>\<open>s.includes(t)\<close>: \<open>t\<close> occurs in \<open>s\<close> as a contiguous run.\<close>

fun includes_js :: "string \<Rightarrow> string \<Rightarrow> bool" where
  "includes_js [] t = (t = [])"
| "includes_js (c # s) t = (prefix t (c # s) \<or> includes_js s t)"

text \<open>White space and line terminators (tab, LF, VT, FF, CR, space, no-break space).\<close>

definition is_space :: "char \<Rightarrow> bool" where
  "is_space c = ((of_char c :: nat) \<in> {9, 10, 11, 12, 13, 32, 160})"

definition trimStart :: "string \<Rightarrow> string" where
  "trimStart s = dropWhile is_space s"

definition trimEnd :: "string \<Rightarrow> string" where
  "trimEnd s = rev (dropWhile is_space (rev s))"

definition trim :: "string \<Rightarrow> string" where
  "trim s = trimEnd (trimStart s)"

subsection \<open>Numbers\<close>

text \<open>The result of an arithmetic operation: NaN, a number or an infinity.\<close>

datatype number = NaN | Num rat | PlusInfinity | MinusInfinity

fun minus_number :: "number \<Rightarrow> number \<Rightarrow> number" where
  "minus_number (Num a) (Num b) = Num (a - b)"
| "minus_number (Num a) PlusInfinity = MinusInfinity"
| "minus_number (Num a) MinusInfinity = PlusInfinity"
| "minus_number PlusInfinity (Num b) = PlusInfinity"
| "minus_number PlusInfinity MinusInfinity = PlusInfinity"
| "minus_number MinusInfinity (Num b) = MinusInfinity"
| "minus_number MinusInfinity PlusInfinity = MinusInfinity"
| "minus_number x y = NaN"

text \<open>The test \<^verbatim>\<open>order < 0\<close>; it fails for NaN.\<close>

fun negative :: "number \<Rightarrow> bool" where
  "negative (Num r) = (r < 0)"
| "negative MinusInfinity = True"
| "negative x = False"

text \<open>
  The number a string denotes (StringToNumber of ECMAScript): white space around it is
  ignored, the empty string is 0, then a binary, octal or hexadecimal integer with its
  prefix, or a decimal literal with an optional sign, fraction and exponent, or a signed
  \<^verbatim>\<open>Infinity\<close>; every other string is NaN. The value is the rational the literal denotes.
\<close>

definition digit_value :: "char \<Rightarrow> nat" where
  "digit_value c =
     (let n = (of_char c :: nat)
      in if 48 \<le> n \<and> n \<le> 57 then n - 48
         else if 97 \<le> n \<and> n \<le> 102 then n - 87
         else if 65 \<le> n \<and> n \<le> 70 then n - 55
         else 16)"

definition is_digit :: "char \<Rightarrow> bool" where
  "is_digit c = (digit_value c < 10)"

definition digits_value :: "nat \<Rightarrow> string \<Rightarrow> nat option" where
  "digits_value b s =
     (if s \<noteq> [] \<and> list_all (\<lambda>c. digit_value c < b) s
      then Some (foldl (\<lambda>a c. a * b + digit_value c) 0 s)
      else None)"

definition NonDecimalIntegerLiteral :: "string \<Rightarrow> nat option" where
  "NonDecimalIntegerLiteral s =
     (case s of
        z # x # ds \<Rightarrow>
          if z \<noteq> CHR ''0'' then None
          else if x = CHR ''x'' \<or> x = CHR ''X'' then digits_value 16 ds
          else if x = CHR ''o'' \<or> x = CHR ''O'' then digits_value 8 ds
          else if x = CHR ''b'' \<or> x = CHR ''B'' then digits_value 2 ds
          else None
      | _ \<Rightarrow> None)"

text \<open>The exponent part of a decimal literal, 0 when there is none, \<open>None\<close> when it is malformed.\<close>

definition ExponentPart :: "string \<Rightarrow> int option" where
  "ExponentPart s =
     (case s of
        [] \<Rightarrow> Some 0
      | e # ds \<Rightarrow>
          if e = CHR ''e'' \<or> e = CHR ''E''
          then (case ds of
                  [] \<Rightarrow> None
                | sign # ds' \<Rightarrow>
                    if sign = CHR ''+'' then map_option int (digits_value 10 ds')
                    else if sign = CHR ''-'' then map_option (\<lambda>n. - int n) (digits_value 10 ds')
                    else map_option int (digits_value 10 ds))
          else None)"

definition scale10 :: "rat \<Rightarrow> int \<Rightarrow> rat" where
  "scale10 q e = (if 0 \<le> e then q * 10 ^ nat e else q / 10 ^ nat (- e))"

definition StrUnsignedDecimalLiteral :: "string \<Rightarrow> number" where
  "StrUnsignedDecimalLiteral s =
     (if s = ''Infinity'' then PlusInfinity
      else
        (let whole = takeWhile is_digit s;
             after_whole = dropWhile is_digit s;
             fraction = (case after_whole of
                           [] \<Rightarrow> []
                         | dot # r \<Rightarrow> if dot = CHR ''.'' then takeWhile is_digit r else []);
             after_fraction = (case after_whole of
                                 [] \<Rightarrow> []
                               | dot # r \<Rightarrow> if dot = CHR ''.'' then dropWhile is_digit r else after_whole)
         in if whole = [] \<and> fraction = [] then NaN
            else (case ExponentPart after_fraction of
                    None \<Rightarrow> NaN
                  | Some e \<Rightarrow>
                      (case digits_value 10 (whole @ fraction) of
                         None \<Rightarrow> NaN
                       | Some n \<Rightarrow> Num (scale10 (of_nat n) (e - int (length fraction)))))))"

fun negate :: "number \<Rightarrow> number" where
  "negate (Num r) = Num (- r)"
| "negate PlusInfinity = MinusInfinity"
| "negate MinusInfinity = PlusInfinity"
| "negate NaN = NaN"

definition StringToNumber :: "string \<Rightarrow> number" where
  "StringToNumber s =
     (let t = trim s
      in case t of
           [] \<Rightarrow> Num 0
         | c # r \<Rightarrow>
             (case NonDecimalIntegerLiteral t of
                Some n \<Rightarrow> Num (of_nat n)
              | None \<Rightarrow>
                  if c = CHR ''+'' then StrUnsignedDecimalLiteral r
                  else if c = CHR ''-'' then negate (StrUnsignedDecimalLiteral r)
                  else StrUnsignedDecimalLiteral t))"

text \<open>
  An object or array has no string form, and its conversion to a string or to a number
  throws a TypeError, when it has a property of its own named \<^verbatim>\<open>toString\<close> (a value of a
  parsed text, a request or a store record is never a function), or when it is an array
  with such an element.
\<close>

fun no_string_form :: "json \<Rightarrow> bool" where
  "no_string_form (JObj fs) = (map_of fs ''toString'' \<noteq> None)"
| "no_string_form (JArr xs) = list_ex no_string_form xs"
| "no_string_form v = False"

text \<open>
  The number of a value that has a string form. An object is converted through its string
  form \<^verbatim>\<open>[object Object]\<close>, an array through the string forms of its elements joined by
  commas: the empty array gives the empty string, an array of one element the string form
  of the element (empty for \<^verbatim>\<open>null\<close>; a number is read back from its string form as it
  is), and a longer array a string with a comma.
\<close>

fun number_of :: "json \<Rightarrow> number" where
  "number_of JNull = Num 0"
| "number_of (JBool b) = Num (if b then 1 else 0)"
| "number_of (JNum r) = Num r"
| "number_of (JStr s) = StringToNumber s"
| "number_of (JObj fs) = NaN"
| "number_of (JArr []) = Num 0"
| "number_of (JArr [JNull]) = Num 0"
| "number_of (JArr [JBool b]) = NaN"
| "number_of (JArr [JNum r]) = Num r"
| "number_of (JArr [JStr s]) = StringToNumber s"
| "number_of (JArr [JObj fs]) = NaN"
| "number_of (JArr [JArr xs]) = number_of (JArr xs)"
| "number_of (JArr (x # y # xs)) = NaN"

text \<open>The operands of \<^verbatim>\<open>x - y\<close> as numbers; \<^verbatim>\<open>undefined\<close> is NaN.\<close>

fun ToNumber :: "json option \<Rightarrow> error + number" where
  "ToNumber None = Inr NaN"
| "ToNumber (Some v) =
     (if no_string_form v then Inl (TypeError ''Cannot convert object to primitive value'')
      else Inr (number_of v))"

definition minus_js :: "json option \<Rightarrow> json option \<Rightarrow> error + number" where
  "minus_js x y =
     (case ToNumber x of Inl e \<Rightarrow> Inl e
      | Inr a \<Rightarrow> (case ToNumber y of Inl e \<Rightarrow> Inl e | Inr b \<Rightarrow> Inr (minus_number a b)))"

text \<open>
  A template literal \<^verbatim>\<open>${x}\<close> converts \<open>x\<close> to a string; \<^verbatim>\<open>undefined\<close> has a string form.
\<close>

fun ToString_throws :: "json option \<Rightarrow> bool" where
  "ToString_throws None = False"
| "ToString_throws (Some v) = no_string_form v"

subsection \<open>Arrays\<close>

text \<open>\<^verbatim>\<open>xs.map(f)\<close> and \<^verbatim>\<open>xs.filter(p)\<close> with a callback that may throw: the first throw ends the call.\<close>

fun map_js :: "('a \<Rightarrow> error + 'b) \<Rightarrow> 'a list \<Rightarrow> error + 'b list" where
  "map_js f [] = Inr []"
| "map_js f (x # xs) =
     (case f x of Inl e \<Rightarrow> Inl e
      | Inr y \<Rightarrow> (case map_js f xs of Inl e \<Rightarrow> Inl e | Inr ys \<Rightarrow> Inr (y # ys)))"

fun filter_js :: "('a \<Rightarrow> error + bool) \<Rightarrow> 'a list \<Rightarrow> error + 'a list" where
  "filter_js p [] = Inr []"
| "filter_js p (x # xs) =
     (case p x of Inl e \<Rightarrow> Inl e
      | Inr b \<Rightarrow> (case filter_js p xs of Inl e \<Rightarrow> Inl e
                 | Inr ys \<Rightarrow> Inr (if b then x # ys else ys)))"

text \<open>
  \<^verbatim>\<open>xs.sort(cmp)\<close>, as the engine of Node.js (V8) runs it on an array without holes. With
  fewer than two elements the comparator is not called. Otherwise the engine takes the
  longest run at the start of the array (\<open>extend_run\<close>): the run descends when
  \<^verbatim>\<open>cmp(xs[1], xs[0]) < 0\<close> and goes on while \<^verbatim>\<open>cmp(xs[i], xs[i-1]) < 0\<close>, and is then
  reversed; else it goes on while that test fails. Every later element is then inserted
  into the sorted part at the place a binary search finds (\<open>binary_search\<close>,
  \<open>binary_insertion\<close>): the search compares the element with the middle of the interval
  and goes left when \<^verbatim>\<open>cmp(pivot, xs[mid]) < 0\<close>. A comparator result NaN counts as 0.

  From 64 elements on the engine sorts runs of 32 to 64 elements in this way and merges
  them; for a comparator that orders the elements the result is the same stable order. The
  model sorts an array of any length as one run.
\<close>

function binary_search :: "('a \<Rightarrow> 'a \<Rightarrow> error + number) \<Rightarrow> 'a \<Rightarrow> 'a list \<Rightarrow> error + nat" where
  "binary_search cmp pivot xs =
     (if xs = [] then Inr 0
      else (case cmp pivot (xs ! (length xs div 2)) of
              Inl e \<Rightarrow> Inl e
            | Inr order \<Rightarrow>
                if negative order then binary_search cmp pivot (take (length xs div 2) xs)
                else (case binary_search cmp pivot (drop (Suc (length xs div 2)) xs) of
                        Inl e \<Rightarrow> Inl e
                      | Inr k \<Rightarrow> Inr (Suc (length xs div 2) + k))))"
  by pat_completeness auto
termination
  by (relation "measure (\<lambda>(cmp, pivot, xs). length xs)") auto

declare binary_search.simps [simp del]

fun binary_insertion :: "('a \<Rightarrow> 'a \<Rightarrow> error + number) \<Rightarrow> 'a list \<Rightarrow> 'a list \<Rightarrow> error + 'a list" where
  "binary_insertion cmp done [] = Inr done"
| "binary_insertion cmp done (pivot # rest) =
     (case binary_search cmp pivot done of
        Inl e \<Rightarrow> Inl e
      | Inr k \<Rightarrow> binary_insertion cmp (take k done @ pivot # drop k done) rest)"

fun extend_run :: "('a \<Rightarrow> 'a \<Rightarrow> error + number) \<Rightarrow> bool \<Rightarrow> 'a \<Rightarrow> 'a list \<Rightarrow> error + nat" where
  "extend_run cmp descending previous [] = Inr 0"
| "extend_run cmp descending previous (current # rest) =
     (case cmp current previous of
        Inl e \<Rightarrow> Inl e
      | Inr order \<Rightarrow>
          if negative order = descending
          then (case extend_run cmp descending current rest of
                  Inl e \<Rightarrow> Inl e
                | Inr k \<Rightarrow> Inr (Suc k))
          else Inr 0)"

fun sort_js :: "('a \<Rightarrow> 'a \<Rightarrow> error + number) \<Rightarrow> 'a list \<Rightarrow> error + 'a list" where
  "sort_js cmp [] = Inr []"
| "sort_js cmp [x] = Inr [x]"
| "sort_js cmp (x0 # x1 # rest) =
     (case cmp x1 x0 of
        Inl e \<Rightarrow> Inl e
      | Inr order \<Rightarrow>
          (case extend_run cmp (negative order) x1 rest of
             Inl e \<Rightarrow> Inl e
           | Inr k \<Rightarrow>
               binary_insertion cmp
                 (if negative order then rev (x0 # x1 # take k rest) else x0 # x1 # take k rest)
                 (drop k rest)))"

subsection \<open>The runtime\<close>

text \<open>
  The instruction sent to the generative model: the menu and one of three directives, or
  (in the second variant of the chat endpoint) the user's message as it is. The wording of
  the prompt is not modelled.
\<close>

datatype directive = ForQuery "json option" | ForMealType "json option" | General

datatype prompt = Recommend "obj list" directive | Message "json option"

text \<open>
  What the server calls and does not define:
  \<^item> \<open>JSON_parse\<close> is \<^verbatim>\<open>JSON.parse\<close>, \<open>None\<close> when it throws a SyntaxError;
  \<^item> \<open>generateContent\<close> is \<^verbatim>\<open>model.generateContent(prompt)\<close> followed by
    \<^verbatim>\<open>result.response.text()\<close>: the reply text, or the error of a failed call;
  \<^item> \<open>collection_get\<close> is \<^verbatim>\<open>db.collection(name).get()\<close>: the documents of the
    collection, each with its identifier and its data, or the error of a failed fetch;
  \<^item> \<open>getDistance\<close> is \<^verbatim>\<open>geolib.getDistance\<close> applied to the \<^verbatim>\<open>parseFloat\<close> of the
    request's latitude and longitude and of a place's latitude and longitude: metres, or
    the error it throws.
\<close>

record runtime =
  JSON_parse :: "string \<Rightarrow> json option"
  generateContent :: "prompt \<Rightarrow> error + string"
  collection_get :: "string \<Rightarrow> error + (string \<times> obj) list"
  getDistance :: "json option \<Rightarrow> json option \<Rightarrow> json option \<Rightarrow> json option \<Rightarrow> error + rat"

section \<open>The recommendation resolver\<close>

subsection \<open>Fast path\<close>

text \<open>
  \<^verbatim>\<open>menu.filter(item => item.productTitle.toLowerCase().includes(query.toLowerCase()))\<close>.
  The receiver is evaluated before the argument; reading \<^verbatim>\<open>toLowerCase\<close> of a missing
  title or of \<^verbatim>\<open>null\<close> throws, and a value that is not a string has no \<^verbatim>\<open>toLowerCase\<close>.
\<close>

definition title_matches :: "json option \<Rightarrow> obj \<Rightarrow> error + bool" where
  "title_matches query item =
     (case map_of item ''productTitle'' of
        Some (JStr title) \<Rightarrow>
          (case query of
             Some (JStr q) \<Rightarrow> Inr (includes_js (toLowerCase title) (toLowerCase q))
           | _ \<Rightarrow> Inl (TypeError ''query.toLowerCase is not a function''))
      | None \<Rightarrow> Inl (TypeError ''Cannot read properties of undefined (reading toLowerCase)'')
      | Some JNull \<Rightarrow> Inl (TypeError ''Cannot read properties of null (reading toLowerCase)'')
      | _ \<Rightarrow> Inl (TypeError ''item.productTitle.toLowerCase is not a function''))"

definition exactMatches :: "json option \<Rightarrow> obj list \<Rightarrow> error + obj list" where
  "exactMatches query menu = filter_js (title_matches query) menu"

subsection \<open>Fallback path\<close>

text \<open>\<^verbatim>\<open>content.replace(/```(json|JSON)\n|\n```/g, '')\<close>: every match, left to right, is removed.\<close>

fun remove_delimiters :: "string \<Rightarrow> string" where
  "remove_delimiters [] = []"
| "remove_delimiters (c # cs) =
     (if prefix ''```json\<newline>'' (c # cs) \<or> prefix ''```JSON\<newline>'' (c # cs)
      then remove_delimiters (drop 7 cs)
      else if prefix ''\<newline>```'' (c # cs)
      then remove_delimiters (drop 3 cs)
      else c # remove_delimiters cs)"

definition cleanedContent :: "string \<Rightarrow> string" where
  "cleanedContent content = trim (remove_delimiters content)"

text \<open>The comparator \<^verbatim>\<open>(a, b) => b.relevance - a.relevance\<close>.\<close>

definition by_relevance :: "json \<Rightarrow> json \<Rightarrow> error + number" where
  "by_relevance a b =
     (case getprop b ''relevance'' of Inl e \<Rightarrow> Inl e
      | Inr rb \<Rightarrow>
          (case getprop a ''relevance'' of Inl e \<Rightarrow> Inl e
           | Inr ra \<Rightarrow> minus_js rb ra))"

text \<open>
  \<^verbatim>\<open>menu.find(menuItem => menuItem.id === item.id)\<close>: the callback, and with it
  \<^verbatim>\<open>item.id\<close>, is evaluated only when the menu has an element.
\<close>

definition find_menuItem :: "obj list \<Rightarrow> json \<Rightarrow> error + obj option" where
  "find_menuItem menu item =
     (if menu = [] then Inr None
      else (case getprop item ''id'' of Inl e \<Rightarrow> Inl e
            | Inr i \<Rightarrow> Inr (find (\<lambda>menuItem. strict_equals (map_of menuItem ''id'') i) menu)))"

text \<open>
  Sorting the parsed reply, looking each candidate up in the menu and dropping the
  candidates that are not found (\<^verbatim>\<open>.filter(Boolean)\<close>; a menu item is an object, hence
  truthy). Only an array has \<^verbatim>\<open>sort\<close>.
\<close>

definition recommendations :: "obj list \<Rightarrow> json \<Rightarrow> error + obj list" where
  "recommendations menu recommendedItems =
     (case recommendedItems of
        JArr items \<Rightarrow>
          (case sort_js by_relevance items of Inl e \<Rightarrow> Inl e
           | Inr ranked \<Rightarrow>
               (case map_js (find_menuItem menu) ranked of Inl e \<Rightarrow> Inl e
                | Inr found \<Rightarrow> Inr (List.map_filter id found)))
      | _ \<Rightarrow> Inl (TypeError ''recommendedItems.sort is not a function''))"

text \<open>
  The directive of the prompt. The prompt is a template literal that holds
  \<^verbatim>\<open>${query}\<close> or \<^verbatim>\<open>${mealType}\<close>; building it throws when the value has no string form.
\<close>

definition directive_of :: "json option \<Rightarrow> json option \<Rightarrow> error + directive" where
  "directive_of query mealType =
     (if truthy query
      then (if ToString_throws query
            then Inl (TypeError ''Cannot convert object to primitive value'')
            else Inr (ForQuery query))
      else if truthy mealType
      then (if ToString_throws mealType
            then Inl (TypeError ''Cannot convert object to primitive value'')
            else Inr (ForMealType mealType))
      else Inr General)"

text \<open>
  The prompt, the model call and what follows it. The second component of the result
  lists the prompts sent to the model.
\<close>

definition ai_recommendations ::
  "runtime \<Rightarrow> json option \<Rightarrow> obj list \<Rightarrow> json option \<Rightarrow> (error + obj list) \<times> prompt list" where
  "ai_recommendations rt query menu mealType =
     (case directive_of query mealType of
        Inl e \<Rightarrow> (Inl e, [])
      | Inr directive \<Rightarrow>
          ((case generateContent rt (Recommend menu directive) of
              Inl e \<Rightarrow> Inl e
            | Inr content \<Rightarrow>
                (case JSON_parse rt (cleanedContent content) of
                   None \<Rightarrow> Inl (SyntaxError ''Unexpected token in JSON'')
                 | Some recommendedItems \<Rightarrow> recommendations menu recommendedItems)),
           [Recommend menu directive]))"

text \<open>The body of the \<^verbatim>\<open>try\<close> block of \<^verbatim>\<open>getPersonalizedRecommendations\<close>.\<close>

definition getPersonalizedRecommendations_try ::
  "runtime \<Rightarrow> json option \<Rightarrow> obj list \<Rightarrow> json option \<Rightarrow> (error + obj list) \<times> prompt list" where
  "getPersonalizedRecommendations_try rt query menu mealType =
     (if truthy query
      then (case exactMatches query menu of
              Inl e \<Rightarrow> (Inl e, [])
            | Inr matches \<Rightarrow>
                if length matches > 0 then (Inr (take 5 matches), [])
                else ai_recommendations rt query menu mealType)
      else ai_recommendations rt query menu mealType)"

text \<open>
  The \<^verbatim>\<open>catch\<close> block logs the error, then evaluates \<^verbatim>\<open>cleanedContent\<close> for a second
  log line before \<^verbatim>\<open>return []\<close>. \<^verbatim>\<open>cleanedContent\<close> is a \<^verbatim>\<open>const\<close> of the \<^verbatim>\<open>try\<close>
  block and no binding of that name is in scope in the \<^verbatim>\<open>catch\<close> block, so the
  evaluation throws a ReferenceError and the \<^verbatim>\<open>return []\<close> is not reached.
\<close>

definition getPersonalizedRecommendations ::
  "runtime \<Rightarrow> json option \<Rightarrow> obj list \<Rightarrow> json option \<Rightarrow> (error + obj list) \<times> prompt list" where
  "getPersonalizedRecommendations rt query menu mealType =
     (case getPersonalizedRecommendations_try rt query menu mealType of
        (Inl error, calls) \<Rightarrow> (Inl (ReferenceError ''cleanedContent is not defined''), calls)
      | (Inr result, calls) \<Rightarrow> (Inr result, calls))"

subsection \<open>The second variant of the resolver\<close>

text \<open>
  The source holds a second variant of the server, with its own
  \<^verbatim>\<open>getPersonalizedRecommendations\<close> and \<^verbatim>\<open>/api/chat\<close>; its definitions carry the
  suffix 2. This resolver has no fast path, names the meal type before the query in the
  prompt, parses the reply as it is and, when that fails, parses the contents of the first
  fenced block; its \<^verbatim>\<open>catch\<close> block returns the empty array.
\<close>

definition directive_of2 :: "json option \<Rightarrow> json option \<Rightarrow> error + directive" where
  "directive_of2 query mealType =
     (if truthy mealType
      then (if ToString_throws mealType
            then Inl (TypeError ''Cannot convert object to primitive value'')
            else Inr (ForMealType mealType))
      else if truthy query
      then (if ToString_throws query
            then Inl (TypeError ''Cannot convert object to primitive value'')
            else Inr (ForQuery query))
      else Inr General)"

text \<open>
  \<^verbatim>\<open>content.match(/```(?:json)?\s*([\s\S]*?)\s*```/)\<close>, as the backtracking matcher runs
  it. \<open>closing\<close> is the tail \<^verbatim>\<open>\s*```\<close> (a white-space character is not a backquote, so
  only the longest run of white space can be followed by the fence); \<open>capture\<close> is the
  lazy group followed by that tail, shortest capture first; \<open>spaces_capture\<close> is the greedy
  \<^verbatim>\<open>\s*\<close> before the group, longest run first; \<open>match_at\<close> is a match at the start of the
  text, the optional tag taken first; \<open>match_fence\<close> is the leftmost match, with the text of
  its group.
\<close>

definition closing :: "string \<Rightarrow> bool" where
  "closing s = prefix ''```'' (dropWhile is_space s)"

fun capture :: "string \<Rightarrow> string option" where
  "capture [] = (if closing [] then Some [] else None)"
| "capture (c # cs) = (if closing (c # cs) then Some [] else map_option ((#) c) (capture cs))"

fun spaces_capture :: "string \<Rightarrow> string option" where
  "spaces_capture [] = capture []"
| "spaces_capture (c # cs) =
     (if is_space c
      then (case spaces_capture cs of Some g \<Rightarrow> Some g | None \<Rightarrow> capture (c # cs))
      else capture (c # cs))"

definition match_at :: "string \<Rightarrow> string option" where
  "match_at s =
     (if prefix ''```'' s
      then (let r = drop 3 s
            in if prefix ''json'' r
               then (case spaces_capture (drop 4 r) of Some g \<Rightarrow> Some g | None \<Rightarrow> spaces_capture r)
               else spaces_capture r)
      else None)"

fun match_fence :: "string \<Rightarrow> string option" where
  "match_fence [] = match_at []"
| "match_fence (c # cs) =
     (case match_at (c # cs) of Some g \<Rightarrow> Some g | None \<Rightarrow> match_fence cs)"

text \<open>The inner \<^verbatim>\<open>try\<close> and \<^verbatim>\<open>catch\<close> that set \<^verbatim>\<open>recommendedItems\<close>.\<close>

definition recommendedItems2 :: "runtime \<Rightarrow> string \<Rightarrow> error + json" where
  "recommendedItems2 rt content =
     (case JSON_parse rt content of
        Some v \<Rightarrow> Inr v
      | None \<Rightarrow>
          (case match_fence content of
             Some inner \<Rightarrow>
               (case JSON_parse rt inner of
                  Some v \<Rightarrow> Inr v
                | None \<Rightarrow> Inl (SyntaxError ''Unexpected token in JSON''))
           | None \<Rightarrow> Inl (Error ''Failed to extract JSON from Gemini response'')))"

definition getPersonalizedRecommendations2_try ::
  "runtime \<Rightarrow> json option \<Rightarrow> obj list \<Rightarrow> json option \<Rightarrow> (error + obj list) \<times> prompt list" where
  "getPersonalizedRecommendations2_try rt query menu mealType =
     (case directive_of2 query mealType of
        Inl e \<Rightarrow> (Inl e, [])
      | Inr directive \<Rightarrow>
          ((case generateContent rt (Recommend menu directive) of
              Inl e \<Rightarrow> Inl e
            | Inr content \<Rightarrow>
                (case recommendedItems2 rt content of
                   Inl e \<Rightarrow> Inl e
                 | Inr recommendedItems \<Rightarrow> recommendations menu recommendedItems)),
           [Recommend menu directive]))"

definition getPersonalizedRecommendations2 ::
  "runtime \<Rightarrow> json option \<Rightarrow> obj list \<Rightarrow> json option \<Rightarrow> (error + obj list) \<times> prompt list" where
  "getPersonalizedRecommendations2 rt query menu mealType =
     (case getPersonalizedRecommendations2_try rt query menu mealType of
        (Inl error, calls) \<Rightarrow> (Inr [], calls)
      | (Inr result, calls) \<Rightarrow> (Inr result, calls))"

section \<open>The HTTP endpoints\<close>

record response =
  status :: nat
  body :: json

text \<open>
  \<^verbatim>\<open>{ id: doc.id, ...doc.data() }\<close>: the identifier first, then the fields of the document,
  a field named \<^verbatim>\<open>id\<close> replacing the identifier.
\<close>

definition with_id :: "string \<times> obj \<Rightarrow> obj" where
  "with_id doc = foldl (\<lambda>fields (k, v). AList.update k v fields) [(''id'', JStr (fst doc))] (snd doc)"

subsection \<open>POST /api/chat\<close>

definition chat_error :: "error \<Rightarrow> response" where
  "chat_error error =
     \<lparr>status = 500,
      body = JObj [(''error'', JStr ''An error occurred while processing the chat.''),
                   (''details'', JStr (error_message error))]\<rparr>"

definition api_chat :: "runtime \<Rightarrow> obj \<Rightarrow> response" where
  "api_chat rt req_body =
     (let message = map_of req_body ''message'';
          mealType = map_of req_body ''mealType''
      in if \<not> truthy message \<and> \<not> truthy mealType
         then chat_error (Error ''Message or meal type is required'')
         else (case collection_get rt ''fs_food_items'' of
                 Inl error \<Rightarrow> chat_error error
               | Inr docs \<Rightarrow>
                   (case fst (getPersonalizedRecommendations rt message (map with_id docs) mealType) of
                      Inl error \<Rightarrow> chat_error error
                    | Inr recs \<Rightarrow>
                        \<lparr>status = 200,
                         body = JObj [(''recommendations'', JArr (map JObj recs))]\<rparr>)))"

text \<open>
  The second variant: the message is required and is first sent to the model as it is;
  the meal type is not read.
\<close>

definition api_chat2 :: "runtime \<Rightarrow> obj \<Rightarrow> response" where
  "api_chat2 rt req_body =
     (let message = map_of req_body ''message''
      in if \<not> truthy message
         then chat_error (Error ''Message is required'')
         else (case generateContent rt (Message message) of
                 Inl error \<Rightarrow> chat_error error
               | Inr aiResponse \<Rightarrow>
                   (case collection_get rt ''fs_food_items'' of
                      Inl error \<Rightarrow> chat_error error
                    | Inr docs \<Rightarrow>
                        (case fst (getPersonalizedRecommendations2 rt message (map with_id docs) None) of
                           Inl error \<Rightarrow> chat_error error
                         | Inr recs \<Rightarrow>
                             \<lparr>status = 200,
                              body = JObj [(''response'', JStr aiResponse),
                                           (''recommendations'', JArr (map JObj recs))]\<rparr>))))"

subsection \<open>GET /api/personalized-recommendations\<close>

definition failed :: "string \<Rightarrow> response" where
  "failed what = \<lparr>status = 500, body = JObj [(''error'', JStr what)]\<rparr>"

text \<open>
  The callback that adds the distance to one recommendation. The file neither declares nor
  imports \<^verbatim>\<open>calculateDistance\<close>, so the call throws a ReferenceError before its arguments
  are evaluated.
\<close>

definition with_distance :: "obj list \<Rightarrow> obj \<Rightarrow> error + obj" where
  "with_distance restaurants item =
     (case find (\<lambda>r. strict_equals (map_of r ''id'') (map_of item ''restaurantId'')) restaurants of
        None \<Rightarrow> Inr item
      | Some restaurant \<Rightarrow>
          if truthy (map_of restaurant ''latitude'') \<and> truthy (map_of restaurant ''longitude'')
          then Inl (ReferenceError ''calculateDistance is not defined'')
          else Inr item)"

definition api_personalized_recommendations :: "runtime \<Rightarrow> obj \<Rightarrow> response" where
  "api_personalized_recommendations rt req_query =
     (let query = map_of req_query ''query'';
          mealType = map_of req_query ''mealType'';
          lat = map_of req_query ''lat'';
          lon = map_of req_query ''lon''
      in case collection_get rt ''fs_food_items'' of
           Inl error \<Rightarrow> failed ''Failed to fetch personalized recommendations''
         | Inr docs \<Rightarrow>
             (case fst (getPersonalizedRecommendations rt query (map with_id docs) mealType) of
                Inl error \<Rightarrow> failed ''Failed to fetch personalized recommendations''
              | Inr recs \<Rightarrow>
                  if truthy lat \<and> truthy lon
                  then (case collection_get rt ''fs_hotels'' of
                          Inl error \<Rightarrow> failed ''Failed to fetch personalized recommendations''
                        | Inr hotel_docs \<Rightarrow>
                            (case map_js (with_distance (map with_id hotel_docs)) recs of
                               Inl error \<Rightarrow> failed ''Failed to fetch personalized recommendations''
                             | Inr enriched \<Rightarrow> \<lparr>status = 200, body = JArr (map JObj enriched)\<rparr>))
                  else \<lparr>status = 200, body = JArr (map JObj recs)\<rparr>))"

subsection \<open>GET /api/nearby-hotels\<close>

text \<open>\<^verbatim>\<open>x || d\<close> with a default \<open>d\<close>.\<close>

fun or_default :: "json option \<Rightarrow> json \<Rightarrow> json" where
  "or_default None d = d"
| "or_default (Some v) d = (if truthy (Some v) then v else d)"

text \<open>A property of an object literal; a property whose value is \<^verbatim>\<open>undefined\<close> reads as a missing one.\<close>

fun property :: "string \<Rightarrow> json option \<Rightarrow> obj" where
  "property k None = []"
| "property k (Some v) = [(k, v)]"

text \<open>
  The callback that builds one entry of the answer: \<^verbatim>\<open>null\<close> (here \<open>None\<close>) when the
  distance computation throws.
\<close>

definition hotel_entry :: "runtime \<Rightarrow> json option \<Rightarrow> json option \<Rightarrow> obj \<Rightarrow> obj option" where
  "hotel_entry rt latitude longitude hotel =
     (case getDistance rt latitude longitude (map_of hotel ''latitude'') (map_of hotel ''longitude'') of
        Inl error \<Rightarrow> None
      | Inr metres \<Rightarrow>
          Some (property ''id'' (map_of hotel ''id'') @
                [(''name'', or_default (map_of hotel ''hotelName'') (JStr ''Unnamed Hotel'')),
                 (''address'', or_default (map_of hotel ''hotelAddress'') (JStr ''Address not available'')),
                 (''phone'', or_default (map_of hotel ''hotelPhoneNo'') (JStr ''Phone not available'')),
                 (''type'', or_default (map_of hotel ''hotelType'') (JStr ''restaurant''))] @
                property ''latitude'' (map_of hotel ''latitude'') @
                property ''longitude'' (map_of hotel ''longitude'') @
                [(''distance'', JNum (metres / 1000))]))"

text \<open>The comparator \<^verbatim>\<open>(a, b) => a.distance - b.distance\<close>.\<close>

definition by_distance :: "obj \<Rightarrow> obj \<Rightarrow> error + number" where
  "by_distance a b = minus_js (map_of a ''distance'') (map_of b ''distance'')"

text \<open>
  \<^verbatim>\<open>hotelsSnapshot.docs.map(...).filter(hotel => hotel.latitude && hotel.longitude)\<close>.
\<close>

definition has_coordinates :: "obj \<Rightarrow> bool" where
  "has_coordinates hotel = (truthy (map_of hotel ''latitude'') \<and> truthy (map_of hotel ''longitude''))"

definition hotels :: "(string \<times> obj) list \<Rightarrow> obj list" where
  "hotels docs = filter has_coordinates (map with_id docs)"

text \<open>The entries, without the failed ones, nearest first, five at most.\<close>

definition nearbyHotels :: "runtime \<Rightarrow> json option \<Rightarrow> json option \<Rightarrow> obj list \<Rightarrow> error + obj list" where
  "nearbyHotels rt latitude longitude places =
     (case sort_js by_distance (List.map_filter (hotel_entry rt latitude longitude) places) of
        Inl error \<Rightarrow> Inl error
      | Inr ranked \<Rightarrow> Inr (take 5 ranked))"

definition api_nearby_hotels :: "runtime \<Rightarrow> obj \<Rightarrow> response" where
  "api_nearby_hotels rt req_query =
     (let latitude = map_of req_query ''latitude'';
          longitude = map_of req_query ''longitude''
      in case collection_get rt ''fs_hotels'' of
           Inl error \<Rightarrow> failed ''Failed to fetch nearby hotels''
         | Inr docs \<Rightarrow>
             (case nearbyHotels rt latitude longitude (hotels docs) of
                Inl error \<Rightarrow> failed ''Failed to fetch nearby hotels''
              | Inr entries \<Rightarrow> \<lparr>status = 200, body = JArr (map JObj entries)\<rparr>))"

section \<open>Notions used to state the properties\<close>

text \<open>An item whose title contains the query, letter case apart.\<close>

definition has_title_matching :: "string \<Rightarrow> obj \<Rightarrow> bool" where
  "has_title_matching q item =
     (case map_of item ''productTitle'' of
        Some (JStr title) \<Rightarrow> sublist (toLowerCase q) (toLowerCase title)
      | _ \<Rightarrow> False)"

definition has_title :: "obj \<Rightarrow> bool" where
  "has_title item = (case map_of item ''productTitle'' of Some (JStr title) \<Rightarrow> True | _ \<Rightarrow> False)"

text \<open>
  A candidate of the model's reply: the number its relevance is in the comparator (\<open>None\<close>
  when reading or converting it throws and when it is NaN or infinite: a candidate that is
  not an object, a missing relevance, a text that is not a number), its identifier, and
  the menu item the identifier names.
\<close>

definition candidate_relevance :: "json \<Rightarrow> rat option" where
  "candidate_relevance c =
     (case getprop c ''relevance'' of
        Inl e \<Rightarrow> None
      | Inr v \<Rightarrow>
          (case ToNumber v of
             Inl e \<Rightarrow> None
           | Inr n \<Rightarrow> (case n of Num r \<Rightarrow> Some r | _ \<Rightarrow> None)))"

definition relevance :: "json \<Rightarrow> rat" where
  "relevance c = (case candidate_relevance c of Some r \<Rightarrow> r | None \<Rightarrow> 0)"

definition candidate_id :: "json \<Rightarrow> json option" where
  "candidate_id c = (case c of JObj fs \<Rightarrow> map_of fs ''id'' | _ \<Rightarrow> None)"

definition menu_item_of :: "obj list \<Rightarrow> json \<Rightarrow> obj option" where
  "menu_item_of menu c =
     find (\<lambda>menuItem. strict_equals (map_of menuItem ''id'') (candidate_id c)) menu"

text \<open>A reply wrapped in a fenced block: the fence with its tag, a line break, the text, a line break, the fence.\<close>

definition fenced :: "string \<Rightarrow> string \<Rightarrow> string" where
  "fenced tag t = ''```'' @ tag @ ''\<newline>'' @ t @ ''\<newline>```''"

text \<open>A place whose latitude or longitude is the number 0.\<close>

definition zero_coordinate :: "obj \<Rightarrow> bool" where
  "zero_coordinate place =
     (map_of place ''latitude'' = Some (JNum 0) \<or> map_of place ''longitude'' = Some (JNum 0))"

definition without_zero_coordinates :: "(string \<times> obj) list \<Rightarrow> (string \<times> obj) list" where
  "without_zero_coordinates docs = filter (\<lambda>doc. \<not> zero_coordinate (with_id doc)) docs"

definition restaurant_of :: "obj list \<Rightarrow> obj \<Rightarrow> obj option" where
  "restaurant_of restaurants item =
     find (\<lambda>r. strict_equals (map_of r ''id'') (map_of item ''restaurantId'')) restaurants"

section \<open>Example inputs\<close>

text \<open>
  A runtime for the examples: \<^verbatim>\<open>JSON.parse\<close> given by a table of the texts an example
  parses (every other text the examples reach is not JSON), a model with one fixed answer,
  a store given by its collections, and a stand-in for the distance library that measures
  along the equator from the meridian of Greenwich.
\<close>

definition equator_metres :: "json option \<Rightarrow> json option \<Rightarrow> json option \<Rightarrow> json option \<Rightarrow> error + rat" where
  "equator_metres latitude longitude place_latitude place_longitude =
     (case place_longitude of
        Some (JNum degrees) \<Rightarrow> Inr (\<bar>degrees\<bar> * 111000)
      | _ \<Rightarrow> Inl (Error ''Unknown format''))"

definition example_runtime ::
  "(string \<times> json) list \<Rightarrow> error + string \<Rightarrow> (string \<times> (string \<times> obj) list) list \<Rightarrow> runtime" where
  "example_runtime parses reply store =
     \<lparr>JSON_parse = map_of parses,
      generateContent = (\<lambda>prompt. reply),
      collection_get = (\<lambda>name. case map_of store name of
                                   None \<Rightarrow> Inl (Error ''collection unavailable'')
                                 | Some docs \<Rightarrow> Inr docs),
      getDistance = equator_metres\<rparr>"

definition dish :: "string \<Rightarrow> string \<Rightarrow> obj" where
  "dish i title = [(''id'', JStr i), (''productTitle'', JStr title)]"

definition candidate :: "string \<Rightarrow> rat \<Rightarrow> json" where
  "candidate i r = JObj [(''id'', JStr i), (''relevance'', JNum r)]"

definition menu2 :: "obj list" where
  "menu2 = [dish ''1'' ''Veg Burger'', dish ''2'' ''Chicken Wrap'']"

definition menu6 :: "obj list" where
  "menu6 = [dish ''1'' ''Veg Burger'', dish ''2'' ''Chicken Wrap'', dish ''3'' ''Paneer Roll'',
            dish ''4'' ''Masala Dosa'', dish ''5'' ''Fish Curry'', dish ''6'' ''Lemon Rice'']"

definition reply6 :: string where
  \<open>reply6 = ''[{"id":"1","relevance":0.9},{"id":"2","relevance":0.8},{"id":"3","relevance":0.7},{"id":"4","relevance":0.6},{"id":"5","relevance":0.5},{"id":"6","relevance":0.4}]''\<close>

definition parsed6 :: json where
  "parsed6 = JArr [candidate ''1'' (9/10), candidate ''2'' (8/10), candidate ''3'' (7/10),
                   candidate ''4'' (6/10), candidate ''5'' (5/10), candidate ''6'' (4/10)]"

definition reply4 :: string where
  \<open>reply4 = ''[{"id":"2","relevance":0.5},{"id":"9","relevance":0.9},{"id":"1","relevance":0.5},{"id":"3","relevance":0.7}]''\<close>

definition items4 :: "json list" where
  "items4 = [candidate ''2'' (1/2), candidate ''9'' (9/10), candidate ''1'' (1/2), candidate ''3'' (7/10)]"

definition truncated_reply :: string where
  \<open>truncated_reply = ''[{"id":"1","rele''\<close>

definition object_reply :: string where
  \<open>object_reply = ''{"id":"1","relevance":0.9}''\<close>

definition store3 :: "(string \<times> (string \<times> obj) list) list" where
  "store3 =
     [(''fs_food_items'',
         [(''1'', [(''productTitle'', JStr ''Veg Burger''), (''restaurantId'', JStr ''h1'')])]),
      (''fs_hotels'',
         [(''h1'', [(''hotelName'', JStr ''Udupi Cafe''),
                    (''latitude'', JNum (1297/100)), (''longitude'', JNum (7759/100))])])]"

definition hotel_docs :: "(string \<times> obj) list" where
  "hotel_docs =
     [(''h0'', [(''hotelName'', JStr ''Meridian''), (''latitude'', JNum 0), (''longitude'', JNum 0)]),
      (''h2'', [(''hotelName'', JStr ''Two East''), (''latitude'', JNum 0), (''longitude'', JNum 2)]),
      (''h1'', [(''latitude'', JNum (1/2)), (''longitude'', JNum 1)])]"

definition store_equator :: "(string \<times> (string \<times> obj) list) list" where
  "store_equator =
     [(''fs_food_items'',
         [(''1'', [(''productTitle'', JStr ''Veg Burger''), (''restaurantId'', JStr ''h0'')])]),
      (''fs_hotels'', hotel_docs)]"

definition padded_reply :: string where
  "padded_reply = '' [1, 2]\<newline>''"

definition quoted_fence_reply :: string where
  \<open>quoted_fence_reply = ''["```"]''\<close>

text \<open>A menu with an item that has no title.\<close>

definition menu_untitled :: "obj list" where
  "menu_untitled = [dish ''1'' ''Veg Burger'', [(''id'', JStr ''2'')]]"

text \<open>A reply whose second candidate has no relevance.\<close>

definition reply3 :: string where
  \<open>reply3 = ''[{"id":"1","relevance":0.5},{"id":"2"},{"id":"3","relevance":0.9}]''\<close>

definition items3 :: "json list" where
  "items3 = [candidate ''1'' (1/2), JObj [(''id'', JStr ''2'')], candidate ''3'' (9/10)]"

text \<open>A reply with a candidate without relevance after a descending pair.\<close>

definition items_run :: "json list" where
  "items_run = [candidate ''1'' (1/2), candidate ''2'' (9/10), JObj [(''id'', JStr ''3'')], candidate ''4'' 1]"

text \<open>A reply whose relevances are numbers written as strings.\<close>

definition items_strings :: "json list" where
  "items_strings = [JObj [(''id'', JStr ''1''), (''relevance'', JStr ''0.1'')],
                    JObj [(''id'', JStr ''2''), (''relevance'', JStr ''0.9'')]]"

text \<open>A meal type that has no string form.\<close>

definition unprintable :: json where
  "unprintable = JObj [(''toString'', JNum 1)]"

section \<open>Properties of arrays\<close>

subsection \<open>Filtering and mapping\<close>

lemma includes_js_sublist: "includes_js s t \<longleftrightarrow> sublist t s"
  by (induction s) (auto simp: sublist_Cons_right)

lemma filter_js_total:
  "(\<And>x. x \<in> set xs \<Longrightarrow> p x = Inr (P x)) \<Longrightarrow> filter_js p xs = Inr (filter P xs)"
  by (induction xs) auto

lemma filter_js_subset: "filter_js p xs = Inr ys \<Longrightarrow> set ys \<subseteq> set xs"
  by (induction xs arbitrary: ys) (auto split: sum.splits if_splits)

lemma map_filter_id_map: "List.map_filter id (map f xs) = List.map_filter f xs"
  by (induction xs) (auto simp: List.map_filter_simps split: option.splits)

subsection \<open>The sort keeps the elements\<close>

lemma mset_take_drop: "mset (take k xs) + mset (drop k xs) = mset xs"
  by (simp flip: mset_append)

lemma binary_insertion_mset:
  "binary_insertion cmp done rest = Inr ys \<Longrightarrow> mset ys = mset done + mset rest"
proof (induction rest arbitrary: "done" ys)
  case Nil
  then show ?case by simp
next
  case (Cons pivot rest)
  show ?case
  proof (cases "binary_search cmp pivot done")
    case (Inl e)
    with Cons.prems show ?thesis by simp
  next
    case (Inr k)
    with Cons.prems have "binary_insertion cmp (take k done @ pivot # drop k done) rest = Inr ys"
      by simp
    from Cons.IH[OF this] mset_take_drop[of k "done"] show ?thesis
      by (simp add: ac_simps)
  qed
qed

lemma sort_js_mset: "sort_js cmp xs = Inr ys \<Longrightarrow> mset ys = mset xs"
proof (cases xs)
  case Nil
  then show "sort_js cmp xs = Inr ys \<Longrightarrow> mset ys = mset xs" by auto
next
  case (Cons x0 tl)
  assume r: "sort_js cmp xs = Inr ys"
  show "mset ys = mset xs"
  proof (cases tl)
    case Nil
    with Cons r show ?thesis by auto
  next
    case tl: (Cons x1 rest)
    with Cons have xs: "xs = x0 # x1 # rest" by simp
    show ?thesis
    proof (cases "cmp x1 x0")
      case (Inl e)
      with r xs show ?thesis by simp
    next
      case ord: (Inr order)
      show ?thesis
      proof (cases "extend_run cmp (negative order) x1 rest")
        case (Inl e)
        with r xs ord show ?thesis by simp
      next
        case (Inr k)
        with r xs ord have
          "binary_insertion cmp
             (if negative order then rev (x0 # x1 # take k rest) else x0 # x1 # take k rest)
             (drop k rest) = Inr ys"
          by simp
        from binary_insertion_mset[OF this] mset_take_drop[of k rest] xs show ?thesis
          by (simp add: ac_simps split: if_splits)
      qed
    qed
  qed
qed

lemma sort_js_set: "sort_js cmp xs = Inr ys \<Longrightarrow> set ys = set xs"
  by (drule sort_js_mset) (rule mset_eq_setD)

subsection \<open>The sort with a comparator that orders the elements\<close>

text \<open>
  A comparator orders a set by a key when it does not throw there and its result is
  negative exactly when the key of its first argument is the smaller one. For such a
  comparator the sort is the stable sort by the key.
\<close>

lemma sorted_filter_takeWhile:
  fixes g :: "'a \<Rightarrow> rat"
  shows "sorted (map g p) \<Longrightarrow> filter (\<lambda>y. g y \<le> c) p = takeWhile (\<lambda>y. g y \<le> c) p"
proof (induction p)
  case Nil
  then show ?case by simp
next
  case (Cons y p)
  from Cons.prems have sp: "sorted (map g p)" and le: "\<forall>z \<in> set p. g y \<le> g z" by simp_all
  show ?case
  proof (cases "g y \<le> c")
    case True
    with Cons.IH[OF sp] show ?thesis by simp
  next
    case False
    have "\<not> g z \<le> c" if "z \<in> set p" for z
    proof -
      from le that have "g y \<le> g z" by blast
      with False show ?thesis by simp
    qed
    then have "filter (\<lambda>y. g y \<le> c) p = []" by (simp add: filter_empty_conv)
    with False show ?thesis by simp
  qed
qed

lemma sorted_dropWhile_greater:
  fixes g :: "'a \<Rightarrow> rat"
  shows "sorted (map g p) \<Longrightarrow> z \<in> set (dropWhile (\<lambda>y. g y \<le> c) p) \<Longrightarrow> c < g z"
proof (induction p)
  case Nil
  then show ?case by simp
next
  case (Cons y p)
  from Cons.prems(1) have sp: "sorted (map g p)" and le: "\<forall>w \<in> set p. g y \<le> g w" by simp_all
  show ?case
  proof (cases "g y \<le> c")
    case True
    with Cons.prems(2) have "z \<in> set (dropWhile (\<lambda>y. g y \<le> c) p)" by simp
    with sp show ?thesis by (rule Cons.IH)
  next
    case False
    with Cons.prems(2) have "z = y \<or> z \<in> set p" by simp
    then show ?thesis
    proof
      assume "z = y"
      with False show ?thesis by simp
    next
      assume "z \<in> set p"
      with le have "g y \<le> g z" by blast
      with False show ?thesis by simp
    qed
  qed
qed

lemma sorted_split:
  fixes g :: "'a \<Rightarrow> rat"
  assumes "sorted (map g p)"
  shows "(\<forall>y \<in> set (take (length (filter (\<lambda>y. g y \<le> c) p)) p). g y \<le> c)
       \<and> (\<forall>y \<in> set (drop (length (filter (\<lambda>y. g y \<le> c) p)) p). c < g y)"
proof -
  have f: "filter (\<lambda>y. g y \<le> c) p = takeWhile (\<lambda>y. g y \<le> c) p"
    using assms by (rule sorted_filter_takeWhile)
  have t: "take (length (takeWhile (\<lambda>y. g y \<le> c) p)) p = takeWhile (\<lambda>y. g y \<le> c) p"
    by (rule takeWhile_eq_take[symmetric])
  have d: "drop (length (takeWhile (\<lambda>y. g y \<le> c) p)) p = dropWhile (\<lambda>y. g y \<le> c) p"
    by (rule dropWhile_eq_drop[symmetric])
  have "\<forall>y \<in> set (takeWhile (\<lambda>y. g y \<le> c) p). g y \<le> c"
    by (auto dest: set_takeWhileD)
  moreover have "\<forall>y \<in> set (dropWhile (\<lambda>y. g y \<le> c) p). c < g y"
    using assms by (auto dest: sorted_dropWhile_greater)
  ultimately show ?thesis by (simp only: f t d) 
qed

lemma binary_search_sorted:
  fixes g :: "'a \<Rightarrow> rat"
  assumes ord: "\<forall>x \<in> S. \<forall>y \<in> S. \<exists>d. cmp x y = Inr d \<and> negative d = (g x < g y)"
    and "pivot \<in> S"
  shows "sorted (map g xs) \<Longrightarrow> set xs \<subseteq> S \<Longrightarrow>
         binary_search cmp pivot xs = Inr (length (filter (\<lambda>y. g y \<le> g pivot) xs))"
proof (induction xs rule: length_induct)
  case (1 xs)
  show ?case
  proof (cases "xs = []")
    case True
    then show ?thesis by (subst binary_search.simps) simp
  next
    case ne: False
    define mid where "mid = length xs div 2"
    define a where "a = take mid xs"
    define m where "m = xs ! mid"
    define b where "b = drop (Suc mid) xs"
    from ne have mid: "mid < length xs" by (simp add: mid_def)
    then have xs: "xs = a @ m # b" by (simp add: a_def m_def b_def id_take_nth_drop)
    from mid have la: "length a = mid" by (simp add: a_def)
    from xs "1.prems" have sa: "sorted (map g a)" and sb: "sorted (map g b)"
      and am: "\<forall>y \<in> set a. g y \<le> g m" and mb: "\<forall>y \<in> set b. g m \<le> g y"
      by (auto simp: sorted_append)
    from xs "1.prems" have mS: "m \<in> S" and aS: "set a \<subseteq> S" and bS: "set b \<subseteq> S" by auto
    from ord assms(2) mS obtain d where d: "cmp pivot m = Inr d" "negative d = (g pivot < g m)"
      by blast
    have step: "binary_search cmp pivot xs =
        (if negative d then binary_search cmp pivot a
         else (case binary_search cmp pivot b of Inl e \<Rightarrow> Inl e | Inr k \<Rightarrow> Inr (Suc mid + k)))"
      unfolding a_def b_def m_def mid_def using ne d(1)[unfolded m_def mid_def]
      by (subst binary_search.simps) simp
    show ?thesis
    proof (cases "g pivot < g m")
      case True
      from xs have "length a < length xs" by simp
      with "1.IH" sa aS have "binary_search cmp pivot a = Inr (length (filter (\<lambda>y. g y \<le> g pivot) a))"
        by blast
      moreover from True mb have "filter (\<lambda>y. g y \<le> g pivot) (m # b) = []"
        by (auto simp: filter_empty_conv)
      ultimately show ?thesis using step True d(2) xs by simp
    next
      case False
      from xs have "length b < length xs" by simp
      with "1.IH" sb bS have "binary_search cmp pivot b = Inr (length (filter (\<lambda>y. g y \<le> g pivot) b))"
        by blast
      moreover from False am have "filter (\<lambda>y. g y \<le> g pivot) a = a"
        by (auto simp: filter_id_conv)
      ultimately show ?thesis using step False d(2) la by (subst (2) xs) simp
    qed
  qed
qed

lemma insert_is_sort_key:
  fixes g :: "'a \<Rightarrow> rat"
  shows "take (length (filter (\<lambda>y. g y \<le> g x) (sort_key g ys))) (sort_key g ys) @
         x # drop (length (filter (\<lambda>y. g y \<le> g x) (sort_key g ys))) (sort_key g ys) =
         sort_key g (ys @ [x])"
proof -
  define p where "p = sort_key g ys"
  define k where "k = length (filter (\<lambda>y. g y \<le> g x) p)"
  define lower where "lower = take k p"
  define upper where "upper = drop k p"
  have sp: "sorted (map g p)" unfolding p_def by (rule sorted_sort_key)
  have lo: "\<forall>y \<in> set lower. g y \<le> g x"
    unfolding lower_def k_def by (rule sorted_split[OF sp, THEN conjunct1])
  have hi: "\<forall>y \<in> set upper. g x < g y"
    unfolding upper_def k_def by (rule sorted_split[OF sp, THEN conjunct2])
  have p: "p = lower @ upper" by (simp add: lower_def upper_def)
  from sp have sl: "sorted (map g lower)" and su: "sorted (map g upper)"
    by (simp_all add: p sorted_append)
  have "mset p = mset ys" unfolding p_def by simp
  then have "mset lower + mset upper = mset ys" by (simp add: p)
  then have a: "mset (lower @ x # upper) = mset (ys @ [x])"
    by simp
  have c: "sorted (map g (lower @ x # upper))"
  proof -
    have "g a \<le> g b" if "a \<in> set lower" and "b \<in> set upper" for a b
    proof -
      from lo that(1) have "g a \<le> g x" by blast
      moreover from hi that(2) have "g x < g b" by blast
      ultimately show ?thesis by simp
    qed
    moreover have "g x \<le> g b" if "b \<in> set upper" for b
    proof -
      from hi that have "g x < g b" by blast
      then show ?thesis by simp
    qed
    ultimately show ?thesis using sl su lo by (simp add: sorted_append)
  qed
  have b: "filter (\<lambda>w. g z = g w) (lower @ x # upper) = filter (\<lambda>w. g z = g w) (ys @ [x])" for z
  proof -
    have flip: "(\<lambda>w. g w = g z) = (\<lambda>w. g z = g w)" by auto
    have "filter (\<lambda>w. g w = g z) p = filter (\<lambda>w. g w = g z) ys"
      unfolding p_def by (rule sort_key_stable)
    then have "filter (\<lambda>w. g z = g w) p = filter (\<lambda>w. g z = g w) ys"
      by (simp only: flip)
    then have stable: "filter (\<lambda>w. g z = g w) lower @ filter (\<lambda>w. g z = g w) upper =
                       filter (\<lambda>w. g z = g w) ys"
      by (simp only: p filter_append)
    show ?thesis
    proof (cases "g z = g x")
      case True
      have "\<not> g z = g w" if "w \<in> set upper" for w
      proof -
        from hi that have "g x < g w" by blast
        with True show ?thesis by simp
      qed
      then have "filter (\<lambda>w. g z = g w) upper = []" by (simp add: filter_empty_conv)
      with stable True show ?thesis by simp
    next
      case False
      with stable show ?thesis by simp
    qed
  qed
  have "sort_key g (ys @ [x]) = lower @ x # upper"
    using a b c by (rule properties_for_sort_key)
  then show ?thesis by (simp only: lower_def upper_def k_def p_def)
qed

lemma binary_insertion_sorted:
  fixes g :: "'a \<Rightarrow> rat"
  assumes ord: "\<forall>x \<in> S. \<forall>y \<in> S. \<exists>d. cmp x y = Inr d \<and> negative d = (g x < g y)"
  shows "set ys \<subseteq> S \<Longrightarrow> set rest \<subseteq> S \<Longrightarrow>
         binary_insertion cmp (sort_key g ys) rest = Inr (sort_key g (ys @ rest))"
proof (induction rest arbitrary: ys)
  case Nil
  then show ?case by simp
next
  case (Cons x rest)
  from Cons.prems have xS: "x \<in> S" and pS: "set (sort_key g ys) \<subseteq> S" by simp_all
  have "binary_search cmp x (sort_key g ys) =
          Inr (length (filter (\<lambda>y. g y \<le> g x) (sort_key g ys)))"
    using ord xS sorted_sort_key pS by (rule binary_search_sorted)
  moreover from Cons.prems have "set (ys @ [x]) \<subseteq> S" and "set rest \<subseteq> S" by simp_all
  then have "binary_insertion cmp (sort_key g (ys @ [x])) rest = Inr (sort_key g ((ys @ [x]) @ rest))"
    by (rule Cons.IH)
  ultimately show ?case by (simp add: insert_is_sort_key)
qed

lemma extend_run_ascending:
  fixes g :: "'a \<Rightarrow> rat"
  assumes ord: "\<forall>x \<in> S. \<forall>y \<in> S. \<exists>d. cmp x y = Inr d \<and> negative d = (g x < g y)"
  shows "previous \<in> S \<Longrightarrow> set rest \<subseteq> S \<Longrightarrow>
         \<exists>k. extend_run cmp False previous rest = Inr k \<and> sorted (map g (previous # take k rest))"
proof (induction rest arbitrary: previous)
  case Nil
  then show ?case by simp
next
  case (Cons current rest)
  from Cons.prems have cS: "current \<in> S" and rS: "set rest \<subseteq> S" by simp_all
  from ord cS Cons.prems(1) obtain d where
    d: "cmp current previous = Inr d" "negative d = (g current < g previous)" by blast
  show ?case
  proof (cases "g current < g previous")
    case True
    with d show ?thesis by simp
  next
    case False
    from Cons.IH[OF cS rS] obtain k where
      k: "extend_run cmp False current rest = Inr k" "sorted (map g (current # take k rest))" by blast
    from False have "g previous \<le> g current" by simp
    with k(2) have "sorted (map g (previous # current # take k rest))" by auto
    with False d k(1) show ?thesis by (intro exI[of _ "Suc k"]) simp
  qed
qed

lemma extend_run_descending:
  fixes g :: "'a \<Rightarrow> rat"
  assumes ord: "\<forall>x \<in> S. \<forall>y \<in> S. \<exists>d. cmp x y = Inr d \<and> negative d = (g x < g y)"
  shows "previous \<in> S \<Longrightarrow> set rest \<subseteq> S \<Longrightarrow>
         \<exists>k. extend_run cmp True previous rest = Inr k \<and>
             sorted_wrt (\<lambda>a b. g b < g a) (previous # take k rest)"
proof (induction rest arbitrary: previous)
  case Nil
  then show ?case by simp
next
  case (Cons current rest)
  from Cons.prems have cS: "current \<in> S" and rS: "set rest \<subseteq> S" by simp_all
  from ord cS Cons.prems(1) obtain d where
    d: "cmp current previous = Inr d" "negative d = (g current < g previous)" by blast
  show ?case
  proof (cases "g current < g previous")
    case False
    with d show ?thesis by simp
  next
    case True
    from Cons.IH[OF cS rS] obtain k where
      k: "extend_run cmp True current rest = Inr k"
         "sorted_wrt (\<lambda>a b. g b < g a) (current # take k rest)" by blast
    have "g y < g previous" if "y \<in> set (take k rest)" for y
    proof -
      from k(2) that have "g y < g current" by simp
      with True show ?thesis by simp
    qed
    with k(2) True have "sorted_wrt (\<lambda>a b. g b < g a) (previous # current # take k rest)"
      by simp
    with True d k(1) show ?thesis by (intro exI[of _ "Suc k"]) simp
  qed
qed

lemma filter_key_strict:
  fixes g :: "'a \<Rightarrow> rat"
  shows "sorted_wrt (\<lambda>a b. g b < g a) run \<Longrightarrow> z \<in> set run \<Longrightarrow> filter (\<lambda>w. g z = g w) run = [z]"
proof (induction run)
  case Nil
  then show ?case by simp
next
  case (Cons y run)
  show ?case
  proof (cases "z = y")
    case True
    with Cons.prems have "\<forall>w \<in> set run. g z \<noteq> g w" by auto
    then have "filter (\<lambda>w. g z = g w) run = []" by (simp add: filter_empty_conv)
    with True show ?thesis by simp
  next
    case False
    with Cons.prems have "z \<in> set run" and "g z \<noteq> g y" by auto
    with Cons show ?thesis by simp
  qed
qed

lemma sort_key_strict_run:
  fixes g :: "'a \<Rightarrow> rat"
  assumes "sorted_wrt (\<lambda>a b. g b < g a) run"
  shows "sort_key g run = rev run"
proof (rule properties_for_sort_key)
  show "mset (rev run) = mset run" by simp
  show "filter (\<lambda>w. g z = g w) (rev run) = filter (\<lambda>w. g z = g w) run" if "z \<in> set (rev run)" for z
    using that filter_key_strict[OF assms, of z] by (simp add: rev_filter[symmetric])
  from assms have "sorted_wrt (\<lambda>a b. g b \<le> g a) run"
    by (rule sorted_wrt_mono_rel[rotated]) simp
  then show "sorted (map g (rev run))" by (simp add: sorted_map sorted_wrt_rev)
qed

lemma sort_js_ordered:
  fixes g :: "'a \<Rightarrow> rat"
  assumes ord: "\<forall>x \<in> S. \<forall>y \<in> S. \<exists>d. cmp x y = Inr d \<and> negative d = (g x < g y)"
    and sub: "set xs \<subseteq> S"
  shows "sort_js cmp xs = Inr (sort_key g xs)"
proof (cases xs)
  case Nil
  then show ?thesis by simp
next
  case (Cons x0 tl)
  show ?thesis
  proof (cases tl)
    case Nil
    with Cons show ?thesis by simp
  next
    case tl: (Cons x1 rest)
    with Cons have xs: "xs = x0 # x1 # rest" by simp
    with sub have x0: "x0 \<in> S" and x1: "x1 \<in> S" and rS: "set rest \<subseteq> S" by simp_all
    from ord x1 x0 obtain d where d: "cmp x1 x0 = Inr d" "negative d = (g x1 < g x0)" by blast
    show ?thesis
    proof (cases "g x1 < g x0")
      case True
      from extend_run_descending[OF ord x1 rS] obtain k where
        k: "extend_run cmp True x1 rest = Inr k"
           "sorted_wrt (\<lambda>a b. g b < g a) (x1 # take k rest)" by blast
      define run where "run = x0 # x1 # take k rest"
      have "g y < g x0" if "y \<in> set (take k rest)" for y
      proof -
        from k(2) that have "g y < g x1" by simp
        with True show ?thesis by simp
      qed
      with k(2) True have "sorted_wrt (\<lambda>a b. g b < g a) run"
        by (simp add: run_def)
      then have idr: "sort_key g run = rev run"
        by (rule sort_key_strict_run)
      from rS have "set run \<subseteq> S" "set (drop k rest) \<subseteq> S"
        using x0 x1 by (auto simp: run_def dest: in_set_takeD in_set_dropD)
      from binary_insertion_sorted[OF ord this]
      have e2: "binary_insertion cmp (rev run) (drop k rest) = Inr (sort_key g (run @ drop k rest))"
        by (simp only: idr)
      have e1: "sort_js cmp xs = binary_insertion cmp (rev run) (drop k rest)"
        using True d k(1) by (simp add: xs run_def)
      have e3: "run @ drop k rest = xs" by (simp add: run_def xs)
      show ?thesis by (simp only: e1 e2 e3)
    next
      case False
      from extend_run_ascending[OF ord x1 rS] obtain k where
        k: "extend_run cmp False x1 rest = Inr k" "sorted (map g (x1 # take k rest))" by blast
      define run where "run = x0 # x1 # take k rest"
      from False have "g x0 \<le> g x1" by simp
      with k(2) have "sorted (map g run)" by (auto simp: run_def)
      then have idr: "sort_key g run = run"
        by (rule sort_key_id_if_sorted)
      from rS have "set run \<subseteq> S" "set (drop k rest) \<subseteq> S"
        using x0 x1 by (auto simp: run_def dest: in_set_takeD in_set_dropD)
      from binary_insertion_sorted[OF ord this]
      have e2: "binary_insertion cmp run (drop k rest) = Inr (sort_key g (run @ drop k rest))"
        by (simp only: idr)
      have e1: "sort_js cmp xs = binary_insertion cmp run (drop k rest)"
        using False d k(1) by (simp add: xs run_def)
      have e3: "run @ drop k rest = xs" by (simp add: run_def xs)
      show ?thesis by (simp only: e1 e2 e3)
    qed
  qed
qed

section \<open>Properties of the resolver\<close>

subsection \<open>Every recommendation is a menu item\<close>

lemma find_menuItem_member: "find_menuItem menu c = Inr (Some m) \<Longrightarrow> m \<in> set menu"
  by (auto simp: find_menuItem_def find_Some_iff split: if_splits sum.splits)

lemma map_js_find_subset:
  "map_js (find_menuItem menu) cs = Inr found \<Longrightarrow> set (List.map_filter id found) \<subseteq> set menu"
  by (induction cs arbitrary: found)
     (auto simp: List.map_filter_simps dest: find_menuItem_member split: sum.splits option.splits)

lemma recommendations_subset: "recommendations menu v = Inr result \<Longrightarrow> set result \<subseteq> set menu"
  unfolding recommendations_def
  by (auto split: json.splits sum.splits dest: map_js_find_subset)

lemma ai_recommendations_subset:
  "ai_recommendations rt query menu mealType = (Inr result, calls) \<Longrightarrow> set result \<subseteq> set menu"
  unfolding ai_recommendations_def
  by (auto split: sum.splits option.splits dest: recommendations_subset)

lemma try_returns:
  "getPersonalizedRecommendations rt query menu mealType = (Inr result, calls) \<Longrightarrow>
   getPersonalizedRecommendations_try rt query menu mealType = (Inr result, calls)"
  by (auto simp: getPersonalizedRecommendations_def split: prod.splits sum.splits)

lemma title_matches_string:
  "has_title item \<Longrightarrow> title_matches (Some (JStr q)) item = Inr (has_title_matching q item)"
  by (auto simp: title_matches_def has_title_def has_title_matching_def includes_js_sublist
           split: option.splits json.splits)

lemma exactMatches_string:
  "\<forall>item \<in> set menu. has_title item \<Longrightarrow>
   exactMatches (Some (JStr q)) menu = Inr (filter (has_title_matching q) menu)"
  unfolding exactMatches_def by (rule filter_js_total) (simp add: title_matches_string)

text \<open>
  C9: every item that \<^verbatim>\<open>getPersonalizedRecommendations\<close> returns is an element of the menu
  it was given, on the fast path and on the fallback path.
\<close>

theorem recommendations_from_menu:
  assumes "getPersonalizedRecommendations rt query menu mealType = (Inr result, calls)"
  shows "set result \<subseteq> set menu"
proof -
  from assms have body: "getPersonalizedRecommendations_try rt query menu mealType = (Inr result, calls)"
    by (rule try_returns)
  show ?thesis
  proof (cases "truthy query")
    case False
    with body show ?thesis
      by (auto simp: getPersonalizedRecommendations_try_def dest: ai_recommendations_subset)
  next
    case True
    show ?thesis
    proof (cases "exactMatches query menu")
      case (Inl e)
      with True body show ?thesis by (simp add: getPersonalizedRecommendations_try_def)
    next
      case (Inr ms)
      then have sub: "set ms \<subseteq> set menu" by (auto simp: exactMatches_def dest: filter_js_subset)
      show ?thesis
      proof (cases "ms = []")
        case True
        with \<open>truthy query\<close> Inr body show ?thesis
          by (auto simp: getPersonalizedRecommendations_try_def dest: ai_recommendations_subset)
      next
        case False
        with \<open>truthy query\<close> Inr body have "result = take 5 ms"
          by (auto simp: getPersonalizedRecommendations_try_def)
        with sub show ?thesis using set_take_subset by fastforce
      qed
    qed
  qed
qed

theorem recommendations_from_menu_witness:
  "getPersonalizedRecommendations (example_runtime [(reply6, parsed6)] (Inr reply6) [])
     (Some (JStr ''pizza'')) menu2 None = (Inr menu2, [Recommend menu2 (ForQuery (Some (JStr ''pizza'')))])
   \<and> set menu2 \<subseteq> set menu2"
proof -
  have run: "getPersonalizedRecommendations (example_runtime [(reply6, parsed6)] (Inr reply6) [])
     (Some (JStr ''pizza'')) menu2 None = (Inr menu2, [Recommend menu2 (ForQuery (Some (JStr ''pizza'')))])"
    by code_simp
  from recommendations_from_menu[OF run] run show ?thesis by simp
qed

text \<open>
  C5, with the condition that every menu item has a title that is a string: a non-empty
  query whose lower-case form occurs in the lower-case title of some menu item is
  answered by the first variant of the resolver, without a call of the model, by the first
  five items whose title contains it, in the order of the menu.
\<close>

theorem fast_path_first_five_matches:
  assumes "q \<noteq> []"
    and "\<forall>item \<in> set menu. has_title item"
    and "\<exists>item \<in> set menu. has_title_matching q item"
  shows "getPersonalizedRecommendations rt (Some (JStr q)) menu mealType =
           (Inr (take 5 (filter (has_title_matching q) menu)), [])"
proof -
  from assms(3) have "filter (has_title_matching q) menu \<noteq> []"
    by (auto simp: filter_empty_conv)
  with exactMatches_string[OF assms(2)] assms(1) show ?thesis
    by (simp add: getPersonalizedRecommendations_def getPersonalizedRecommendations_try_def)
qed

theorem fast_path_first_five_matches_witness:
  "getPersonalizedRecommendations (example_runtime [] (Inl (Error ''the model must not be called'')) [])
     (Some (JStr ''BURGER'')) menu2 None = (Inr [dish ''1'' ''Veg Burger''], [])"
proof -
  have a: "''BURGER'' \<noteq> []" by simp
  have b: "\<forall>item \<in> set menu2. has_title item" by code_simp
  have c: "\<exists>item \<in> set menu2. has_title_matching ''BURGER'' item" by code_simp
  have d: "take 5 (filter (has_title_matching ''BURGER'') menu2) = [dish ''1'' ''Veg Burger'']"
    by code_simp
  from fast_path_first_five_matches[OF a b c] d show ?thesis by simp
qed

text \<open>
  C5 as it is written fails for a menu with an item that has no title: the query
  \<^verbatim>\<open>burger\<close> occurs in the title of the first item, the filter reads the title of the
  second item, the \<^verbatim>\<open>try\<close> block throws a TypeError and the resolver raises. It fails for
  the second variant of the resolver, which has no fast path: the query \<^verbatim>\<open>burger\<close> on a
  menu of two titled items is sent to the model, and with a model that fails the result is
  empty.
\<close>

theorem untitled_item_counterexample:
  "''burger'' \<noteq> []
   \<and> list_ex (has_title_matching ''burger'') menu_untitled
   \<and> fst (getPersonalizedRecommendations_try
            (example_runtime [] (Inl (Error ''the model must not be called'')) [])
            (Some (JStr ''burger'')) menu_untitled None) =
       Inl (TypeError ''Cannot read properties of undefined (reading toLowerCase)'')
   \<and> fst (getPersonalizedRecommendations
            (example_runtime [] (Inl (Error ''the model must not be called'')) [])
            (Some (JStr ''burger'')) menu_untitled None) =
       Inl (ReferenceError ''cleanedContent is not defined'')
   \<and> list_ex (has_title_matching ''burger'') menu2
   \<and> getPersonalizedRecommendations2
        (example_runtime [] (Inl (Error ''the model must not be called'')) [])
        (Some (JStr ''burger'')) menu2 None =
       (Inr [], [Recommend menu2 (ForQuery (Some (JStr ''burger'')))])"
  by code_simp

subsection \<open>The order of the fallback path\<close>

lemma candidate_is_object: "candidate_relevance c \<noteq> None \<Longrightarrow> \<exists>fs. c = JObj fs"
  by (cases c) (simp_all add: candidate_relevance_def)

lemma by_relevance_numeric:
  assumes "candidate_relevance a \<noteq> None" and "candidate_relevance b \<noteq> None"
  shows "by_relevance a b = Inr (Num (relevance b - relevance a))"
proof -
  from candidate_is_object[OF assms(1)] obtain fa where a: "a = JObj fa" by blast
  from candidate_is_object[OF assms(2)] obtain fb where b: "b = JObj fb" by blast
  from assms(1) a obtain ra where
    ra: "ToNumber (map_of fa ''relevance'') = Inr (Num ra)" "relevance a = ra"
    by (auto simp: candidate_relevance_def relevance_def split: sum.splits number.splits)
  from assms(2) b obtain rb where
    rb: "ToNumber (map_of fb ''relevance'') = Inr (Num rb)" "relevance b = rb"
    by (auto simp: candidate_relevance_def relevance_def split: sum.splits number.splits)
  from a b ra rb show ?thesis by (simp add: by_relevance_def minus_js_def)
qed

lemma by_relevance_orders:
  "\<forall>x \<in> {c. candidate_relevance c \<noteq> None}. \<forall>y \<in> {c. candidate_relevance c \<noteq> None}.
     \<exists>d. by_relevance x y = Inr d \<and> negative d = (- relevance x < - relevance y)"
  by (auto simp: by_relevance_numeric)

lemma sort_js_numeric:
  assumes "\<forall>y \<in> set xs. candidate_relevance y \<noteq> None"
  shows "sort_js by_relevance xs = Inr (sort_key (\<lambda>c. - relevance c) xs)"
proof -
  from assms have "set xs \<subseteq> {c. candidate_relevance c \<noteq> None}" by auto
  with by_relevance_orders show ?thesis by (rule sort_js_ordered)
qed

lemma find_menuItem_object:
  assumes "candidate_relevance c \<noteq> None"
  shows "find_menuItem menu c = Inr (menu_item_of menu c)"
proof -
  from candidate_is_object[OF assms] obtain fs where "c = JObj fs" by blast
  then show ?thesis by (simp add: find_menuItem_def menu_item_of_def candidate_id_def)
qed

lemma map_js_find_objects:
  "\<forall>c \<in> set cs. candidate_relevance c \<noteq> None \<Longrightarrow>
   map_js (find_menuItem menu) cs = Inr (map (menu_item_of menu) cs)"
  by (induction cs) (simp_all add: find_menuItem_object)

lemma recommendations_numeric:
  assumes "\<forall>c \<in> set items. candidate_relevance c \<noteq> None"
  shows "recommendations menu (JArr items) =
           Inr (List.map_filter (menu_item_of menu) (sort_key (\<lambda>c. - relevance c) items))"
  using assms by (simp add: recommendations_def sort_js_numeric map_js_find_objects map_filter_id_map)

lemma sort_key_descending:
  "sorted_wrt (\<lambda>a b. relevance b \<le> relevance a) (sort_key (\<lambda>c. - relevance c) items)"
proof -
  have "sorted (map (\<lambda>c. - relevance c) (sort_key (\<lambda>c. - relevance c) items))"
    by (rule sorted_sort_key)
  then show ?thesis by (simp add: sorted_map)
qed

lemma fallback_taken:
  assumes "\<not> truthy query \<or> exactMatches query menu = Inr []"
  shows "getPersonalizedRecommendations_try rt query menu mealType =
           ai_recommendations rt query menu mealType"
  using assms by (auto simp: getPersonalizedRecommendations_try_def)

text \<open>
  C6, with the condition that the relevance of every candidate is a number: on the
  fallback path, when the prompt is built, the model replies and the reply parses to an
  array of candidates each of which has a relevance that is a finite number (as the
  comparator converts it), the result lists the menu items the candidates name, in the
  order of a stable sort of the candidates by descending relevance (candidates of equal
  relevance keep the order of the reply); a candidate whose identifier names no menu item
  is left out.
\<close>

theorem fallback_ranks_then_resolves:
  assumes "\<not> truthy query \<or> exactMatches query menu = Inr []"
    and "directive_of query mealType = Inr directive"
    and "generateContent rt (Recommend menu directive) = Inr content"
    and "JSON_parse rt (cleanedContent content) = Some (JArr items)"
    and "\<forall>c \<in> set items. candidate_relevance c \<noteq> None"
  shows "fst (getPersonalizedRecommendations rt query menu mealType) =
           Inr (List.map_filter (menu_item_of menu) (sort_key (\<lambda>c. - relevance c) items))
       \<and> sorted_wrt (\<lambda>a b. relevance b \<le> relevance a) (sort_key (\<lambda>c. - relevance c) items)
       \<and> mset (sort_key (\<lambda>c. - relevance c) items) = mset items
       \<and> (\<forall>k. filter (\<lambda>c. relevance c = k) (sort_key (\<lambda>c. - relevance c) items) =
                filter (\<lambda>c. relevance c = k) items)"
proof -
  have "fst (getPersonalizedRecommendations rt query menu mealType) =
           Inr (List.map_filter (menu_item_of menu) (sort_key (\<lambda>c. - relevance c) items))"
    using assms(2,3,4) recommendations_numeric[OF assms(5)] fallback_taken[OF assms(1)]
    by (simp add: getPersonalizedRecommendations_def ai_recommendations_def)
  moreover have "sorted_wrt (\<lambda>a b. relevance b \<le> relevance a) (sort_key (\<lambda>c. - relevance c) items)"
    by (rule sort_key_descending)
  moreover have "mset (sort_key (\<lambda>c. - relevance c) items) = mset items"
    by simp
  moreover have "filter (\<lambda>c. relevance c = k) (sort_key (\<lambda>c. - relevance c) items) =
         filter (\<lambda>c. relevance c = k) items" for k
  proof -
    have "filter (\<lambda>c. - relevance c = - k) (sort_key (\<lambda>c. - relevance c) items) =
          filter (\<lambda>c. - relevance c = - k) items"
      by (rule sort_key_stable)
    then show ?thesis by simp
  qed
  ultimately show ?thesis by blast
qed

theorem fallback_ranks_then_resolves_witness:
  "fst (getPersonalizedRecommendations
          (example_runtime [(reply4, JArr items4)] (Inr (fenced ''json'' reply4)) [])
          None menu6 (Some (JStr ''lunch''))) =
     Inr [dish ''3'' ''Paneer Roll'', dish ''2'' ''Chicken Wrap'', dish ''1'' ''Veg Burger'']"
proof -
  have a: "\<not> truthy None \<or> exactMatches None menu6 = Inr []" by simp
  have b: "directive_of None (Some (JStr ''lunch'')) = Inr (ForMealType (Some (JStr ''lunch'')))"
    by (simp add: directive_of_def)
  have c: "generateContent (example_runtime [(reply4, JArr items4)] (Inr (fenced ''json'' reply4)) [])
             (Recommend menu6 (ForMealType (Some (JStr ''lunch'')))) = Inr (fenced ''json'' reply4)"
    by (simp add: example_runtime_def)
  have d: "JSON_parse (example_runtime [(reply4, JArr items4)] (Inr (fenced ''json'' reply4)) [])
             (cleanedContent (fenced ''json'' reply4)) = Some (JArr items4)"
    by code_simp
  have e: "\<forall>c \<in> set items4. candidate_relevance c \<noteq> None" by code_simp
  have f: "List.map_filter (menu_item_of menu6) (sort_key (\<lambda>c. - relevance c) items4) =
             [dish ''3'' ''Paneer Roll'', dish ''2'' ''Chicken Wrap'', dish ''1'' ''Veg Burger'']"
    by code_simp
  from fallback_ranks_then_resolves[OF a b c d e] f show ?thesis by simp
qed

text \<open>
  C6 as it is written fails for a parsed array with a candidate that has no relevance:
  the comparator gives NaN for each pair with that candidate, the sort takes the whole
  array for an ascending run and leaves it as it is, and the item of relevance 0.5 comes
  before the item of relevance 0.9.
\<close>

theorem missing_relevance_counterexample:
  "JSON_parse (example_runtime [(reply3, JArr items3)] (Inr reply3) []) (cleanedContent reply3) =
     Some (JArr items3)
   \<and> map candidate_relevance items3 = [Some (1/2), None, Some (9/10)]
   \<and> map (menu_item_of menu6) items3 =
       [Some (dish ''1'' ''Veg Burger''), Some (dish ''2'' ''Chicken Wrap''), Some (dish ''3'' ''Paneer Roll'')]
   \<and> fst (getPersonalizedRecommendations (example_runtime [(reply3, JArr items3)] (Inr reply3) [])
            None menu6 None) =
       Inr [dish ''1'' ''Veg Burger'', dish ''2'' ''Chicken Wrap'', dish ''3'' ''Paneer Roll'']"
  by code_simp

text \<open>
  More of the sort and of the comparator, on examples: a candidate without relevance after
  a descending pair ends the run, and the later candidates are inserted by binary search;
  relevances written as strings are converted and ranked; a candidate that is \<^verbatim>\<open>null\<close>
  makes the comparator throw; a meal type without a string form makes the prompt throw
  before the model is called.
\<close>

lemma sort_js_run_then_insertion:
  "sort_js by_relevance items_run =
     Inr [candidate ''4'' 1, candidate ''2'' (9/10), candidate ''1'' (1/2), JObj [(''id'', JStr ''3'')]]"
  by code_simp

lemma string_relevance_is_ranked:
  "recommendations menu2 (JArr items_strings) =
     Inr [dish ''2'' ''Chicken Wrap'', dish ''1'' ''Veg Burger'']"
  by code_simp

lemma null_candidate_throws:
  "recommendations menu2 (JArr [candidate ''1'' (1/2), JNull]) =
     Inl (TypeError ''Cannot read properties of null (reading relevance)'')"
  by code_simp

lemma prompt_of_unprintable_meal_type_throws:
  "getPersonalizedRecommendations_try (example_runtime [(reply6, parsed6)] (Inr reply6) [])
     None menu2 (Some unprintable) =
     (Inl (TypeError ''Cannot convert object to primitive value''), [])"
  by code_simp

subsection \<open>More than five items, and failures\<close>

text \<open>
  C1: the fast path returns at most five items, and the fallback path returns as many
  items as the candidates of the reply name: here six, for a reply of six candidates.
\<close>

theorem fallback_returns_six_items:
  "fst (getPersonalizedRecommendations (example_runtime [(reply6, parsed6)] (Inr reply6) [])
          None menu6 None) = Inr menu6
   \<and> length menu6 = 6"
  by code_simp

lemma fast_path_at_most_five:
  assumes "exactMatches query menu = Inr matches" and "truthy query" and "matches \<noteq> []"
  shows "\<exists>result. getPersonalizedRecommendations rt query menu mealType = (Inr result, [])
           \<and> length result \<le> 5"
  using assms by (simp add: getPersonalizedRecommendations_def getPersonalizedRecommendations_try_def)

text \<open>
  C2: a failure inside the resolver reaches the caller as a ReferenceError, thrown by the
  \<^verbatim>\<open>catch\<close> block itself: for a failed model call, a truncated reply, a reply that is an
  object, and the empty reply.
\<close>

theorem failure_reaches_the_caller:
  "fst (getPersonalizedRecommendations (example_runtime [] (Inl (Error ''fetch failed'')) [])
          None menu2 None) = Inl (ReferenceError ''cleanedContent is not defined'')
   \<and> fst (getPersonalizedRecommendations (example_runtime [] (Inr truncated_reply) [])
          None menu2 None) = Inl (ReferenceError ''cleanedContent is not defined'')
   \<and> fst (getPersonalizedRecommendations
            (example_runtime [(object_reply, JObj [(''id'', JStr ''1''), (''relevance'', JNum (9/10))])]
               (Inr object_reply) [])
          None menu2 None) = Inl (ReferenceError ''cleanedContent is not defined'')
   \<and> fst (getPersonalizedRecommendations (example_runtime [] (Inr []) [])
          None menu2 None) = Inl (ReferenceError ''cleanedContent is not defined'')"
  by code_simp

lemma thrown_in_try_is_rethrown:
  "fst (getPersonalizedRecommendations_try rt query menu mealType) = Inl e \<Longrightarrow>
   fst (getPersonalizedRecommendations rt query menu mealType) =
     Inl (ReferenceError ''cleanedContent is not defined'')"
  by (auto simp: getPersonalizedRecommendations_def split: prod.splits sum.splits)

lemma getPersonalizedRecommendations2_returns:
  "\<exists>result. fst (getPersonalizedRecommendations2 rt query menu mealType) = Inr result"
  by (auto simp: getPersonalizedRecommendations2_def split: prod.splits sum.splits)

lemma second_variant_always_calls_the_model:
  "directive_of2 query mealType = Inr directive \<Longrightarrow>
   snd (getPersonalizedRecommendations2 rt query menu mealType) = [Recommend menu directive]"
  by (simp add: getPersonalizedRecommendations2_def getPersonalizedRecommendations2_try_def
           split: sum.splits)

subsection \<open>Replies in a fenced block\<close>

text \<open>
  C4: a reply in an untagged fenced block. The first variant removes the closing fence
  and leaves the opening one, the text it parses is not JSON and the resolver raises,
  although the text inside the block parses to the array. The same function removes both
  fences of a block tagged \<^verbatim>\<open>json\<close>, and the second variant parses the contents of the
  untagged block.
\<close>

theorem untagged_fence_is_not_removed:
  "JSON_parse (example_runtime [(reply4, JArr items4)] (Inr (fenced [] reply4)) []) reply4 =
     Some (JArr items4)
   \<and> cleanedContent (fenced [] reply4) = ''```\<newline>'' @ reply4
   \<and> JSON_parse (example_runtime [(reply4, JArr items4)] (Inr (fenced [] reply4)) [])
       (cleanedContent (fenced [] reply4)) = None
   \<and> fst (getPersonalizedRecommendations
            (example_runtime [(reply4, JArr items4)] (Inr (fenced [] reply4)) [])
            None menu6 None) = Inl (ReferenceError ''cleanedContent is not defined'')
   \<and> JSON_parse (example_runtime [(reply4, JArr items4)] (Inr (fenced [] reply4)) [])
       (cleanedContent (fenced ''json'' reply4)) = Some (JArr items4)
   \<and> recommendedItems2 (example_runtime [(reply4, JArr items4)] (Inr (fenced [] reply4)) [])
       (fenced [] reply4) = Inr (JArr items4)"
  by code_simp

text \<open>
  What the two variants do with a fenced block in general, for a text without a run of
  three backquotes: the first variant unwraps a block tagged \<^verbatim>\<open>json\<close> or \<^verbatim>\<open>JSON\<close> and
  keeps the opening fence of an untagged block; the pattern of the second variant captures
  the trimmed text of a tagged and of an untagged block.
\<close>

lemma prefix_fence_append:
  assumes "prefix ''```'' (u @ ''\<newline>```'')" and "u \<noteq> []"
  shows "prefix ''```'' u"
proof (cases u)
  case Nil
  with assms show ?thesis by simp
next
  case u1: (Cons a u1)
  show ?thesis
  proof (cases u1)
    case Nil
    with assms u1 show ?thesis by simp
  next
    case u2: (Cons b u2)
    show ?thesis
    proof (cases u2)
      case Nil
      with assms u1 u2 show ?thesis by simp
    next
      case (Cons d u3)
      with assms u1 u2 show ?thesis by auto
    qed
  qed
qed

lemma no_fence_prefix:
  assumes "\<not> sublist ''```'' t"
  shows "\<not> prefix ''```'' (t @ ''\<newline>```'')"
proof
  assume p: "prefix ''```'' (t @ ''\<newline>```'')"
  show False
  proof (cases "t = []")
    case True
    with p show False by simp
  next
    case False
    with p have "prefix ''```'' t" by (rule prefix_fence_append)
    then have "sublist ''```'' t" by (rule prefix_imp_sublist)
    with assms show False by contradiction
  qed
qed

lemma prefix_tag_fence:
  "prefix ''```json\<newline>'' x \<Longrightarrow> prefix ''```'' x"
  "prefix ''```JSON\<newline>'' x \<Longrightarrow> prefix ''```'' x"
  using append_prefixD[of "''```''" "''json\<newline>''" x] append_prefixD[of "''```''" "''JSON\<newline>''" x]
  by simp_all

lemma remove_delimiters_keep:
  assumes "\<not> prefix ''```json\<newline>'' (c # cs)" and "\<not> prefix ''```JSON\<newline>'' (c # cs)"
    and "\<not> prefix ''\<newline>```'' (c # cs)"
  shows "remove_delimiters (c # cs) = c # remove_delimiters cs"
  using assms by (simp only: remove_delimiters.simps simp_thms if_False)

lemma remove_delimiters_plain:
  "\<not> sublist ''```'' t \<Longrightarrow> remove_delimiters (t @ ''\<newline>```'') = t"
proof (induction t)
  case Nil
  then show ?case by simp
next
  case (Cons c t)
  from Cons.prems have nt: "\<not> sublist ''```'' t"
    by (auto simp: sublist_Cons_right)
  have p3: "\<not> prefix ''```'' ((c # t) @ ''\<newline>```'')"
    using Cons.prems by (rule no_fence_prefix)
  have a: "\<not> prefix ''```json\<newline>'' (c # t @ ''\<newline>```'')"
    and b: "\<not> prefix ''```JSON\<newline>'' (c # t @ ''\<newline>```'')"
    using p3 prefix_tag_fence[of "c # t @ ''\<newline>```''"] by auto
  have d: "\<not> prefix ''\<newline>```'' (c # t @ ''\<newline>```'')"
  proof
    assume "prefix ''\<newline>```'' (c # t @ ''\<newline>```'')"
    then have "prefix ''```'' (t @ ''\<newline>```'')" by auto
    with no_fence_prefix[OF nt] show False by contradiction
  qed
  from remove_delimiters_keep[OF a b d] Cons.IH[OF nt] show ?case by (simp only: append_Cons)
qed

lemma remove_delimiters_tagged:
  assumes "\<not> sublist ''```'' t"
  shows "remove_delimiters (fenced ''json'' t) = t" and "remove_delimiters (fenced ''JSON'' t) = t"
  using remove_delimiters_plain[OF assms] by (simp_all add: fenced_def)

lemma remove_delimiters_untagged:
  assumes "\<not> sublist ''```'' t"
  shows "remove_delimiters (fenced [] t) = ''```\<newline>'' @ t"
proof -
  have "\<not> prefix ''```'' (t @ ''\<newline>```'')" using assms by (rule no_fence_prefix)
  then have "remove_delimiters (CHR ''\<newline>'' # t @ ''\<newline>```'') =
             CHR ''\<newline>'' # remove_delimiters (t @ ''\<newline>```'')"
    by (intro remove_delimiters_keep) auto
  with remove_delimiters_plain[OF assms] show ?thesis by (simp add: fenced_def)
qed

lemma not_space_backquote: "\<not> is_space CHR 0x60"
  by (simp add: is_space_def)

lemma is_space_newline: "is_space CHR ''\<newline>''"
  by (simp add: is_space_def)

lemma trimEnd_Cons:
  "trimEnd (c # u) = (if \<forall>x \<in> set (c # u). is_space x then [] else c # trimEnd u)"
  by (auto simp: trimEnd_def dropWhile_append dropWhile_eq_Nil_conv)

lemma cleanedContent_untagged:
  assumes "\<not> sublist ''```'' t"
  shows "prefix ''```'' (cleanedContent (fenced [] t))"
  using remove_delimiters_untagged[OF assms]
  by (simp add: cleanedContent_def trim_def trimStart_def trimEnd_Cons not_space_backquote)

lemma closing_spaces: "\<forall>x \<in> set u. is_space x \<Longrightarrow> closing (u @ ''\<newline>```'')"
  by (induction u) (auto simp: closing_def is_space_newline not_space_backquote)

lemma closing_no_fence:
  assumes "\<not> sublist ''```'' u" and "\<not> (\<forall>x \<in> set u. is_space x)"
  shows "\<not> closing (u @ ''\<newline>```'')"
proof
  assume c: "closing (u @ ''\<newline>```'')"
  from assms(2) have ne: "dropWhile is_space u \<noteq> []" by (simp add: dropWhile_eq_Nil_conv)
  from assms(2) have "dropWhile is_space (u @ ''\<newline>```'') = dropWhile is_space u @ ''\<newline>```''"
    by (auto simp: dropWhile_append1)
  with c have "prefix ''```'' (dropWhile is_space u @ ''\<newline>```'')" by (simp add: closing_def)
  from prefix_fence_append[OF this ne] have "sublist ''```'' (dropWhile is_space u)"
    by (rule prefix_imp_sublist)
  moreover have "suffix (dropWhile is_space u) u" by (rule suffix_dropWhile)
  ultimately have "sublist ''```'' u"
    using sublist_order.order.trans suffix_imp_sublist by blast
  with assms(1) show False by contradiction
qed

lemma capture_plain:
  "\<not> sublist ''```'' u \<Longrightarrow> capture (u @ ''\<newline>```'') = Some (trimEnd u)"
proof (induction u)
  case Nil
  have "closing ''\<newline>```''" using closing_spaces[of "[]"] by simp
  then show ?case by (simp add: trimEnd_def)
next
  case (Cons c u)
  from Cons.prems have nu: "\<not> sublist ''```'' u" by (auto simp: sublist_Cons_right)
  show ?case
  proof (cases "\<forall>x \<in> set (c # u). is_space x")
    case True
    then have "closing ((c # u) @ ''\<newline>```'')" by (rule closing_spaces)
    with True show ?thesis by (simp add: trimEnd_Cons)
  next
    case False
    with Cons.prems have "\<not> closing ((c # u) @ ''\<newline>```'')" by (rule closing_no_fence)
    with False Cons.IH[OF nu] show ?thesis by (simp add: trimEnd_Cons)
  qed
qed

lemma spaces_capture_plain:
  "\<not> sublist ''```'' t \<Longrightarrow> spaces_capture (t @ ''\<newline>```'') = Some (trim t)"
proof (induction t)
  case Nil
  have "closing ''```''" by (simp add: closing_def not_space_backquote)
  then show ?case by (simp add: trim_def trimStart_def trimEnd_def is_space_newline)
next
  case (Cons c t)
  from Cons.prems have nt: "\<not> sublist ''```'' t" by (auto simp: sublist_Cons_right)
  show ?case
  proof (cases "is_space c")
    case True
    with Cons.IH[OF nt] show ?thesis by (simp add: trim_def trimStart_def)
  next
    case False
    with capture_plain[OF Cons.prems] show ?thesis by (simp add: trim_def trimStart_def)
  qed
qed

lemma match_fence_fenced:
  assumes "\<not> sublist ''```'' t"
  shows "match_fence (fenced ''json'' t) = Some (trim t)"
    and "match_fence (fenced [] t) = Some (trim t)"
  using spaces_capture_plain[OF assms]
  by (simp_all add: fenced_def match_at_def is_space_newline)

lemma tagged_fence_is_removed:
  assumes "\<not> sublist ''```'' t"
  shows "cleanedContent (fenced ''json'' t) = trim t" and "cleanedContent (fenced ''JSON'' t) = trim t"
  using remove_delimiters_tagged[OF assms] by (simp_all add: cleanedContent_def)

lemma first_fenced_block_is_parsed:
  assumes "\<not> sublist ''```'' t"
    and "JSON_parse rt (trim t) = Some v"
    and "JSON_parse rt (fenced ''json'' t) = None"
    and "JSON_parse rt (fenced [] t) = None"
  shows "recommendedItems2 rt (fenced ''json'' t) = Inr v"
    and "recommendedItems2 rt (fenced [] t) = Inr v"
  using assms(2,3,4) match_fence_fenced[OF assms(1)] by (simp_all add: recommendedItems2_def)

text \<open>
  An array with three backquotes in a string, in a tagged block: the first variant unwraps
  it; the lazy group of the second variant ends at the backquotes inside the string.
\<close>

lemma quoted_fence_in_a_tagged_block:
  "cleanedContent (fenced ''json'' quoted_fence_reply) = quoted_fence_reply
   \<and> recommendedItems2 (example_runtime [(quoted_fence_reply, JArr [JStr ''```''])]
                  (Inr (fenced ''json'' quoted_fence_reply)) []) (fenced ''json'' quoted_fence_reply) =
       Inl (SyntaxError ''Unexpected token in JSON'')"
  by code_simp

section \<open>Properties of the endpoints\<close>

text \<open>
  C3: a request with \<^verbatim>\<open>lat\<close> and \<^verbatim>\<open>lon\<close> whose recommendation belongs to a place with
  latitude and longitude is answered with status 500, and the same request without
  \<^verbatim>\<open>lat\<close> and \<^verbatim>\<open>lon\<close> with the recommendation.
\<close>

theorem distance_request_fails:
  "api_personalized_recommendations (example_runtime [] (Inl (Error ''not called'')) store3)
     [(''query'', JStr ''burger''), (''lat'', JStr ''12.9''), (''lon'', JStr ''77.6'')] =
     \<lparr>status = 500, body = JObj [(''error'', JStr ''Failed to fetch personalized recommendations'')]\<rparr>
   \<and> api_personalized_recommendations (example_runtime [] (Inl (Error ''not called'')) store3)
     [(''query'', JStr ''burger'')] =
     \<lparr>status = 200,
      body = JArr [JObj [(''id'', JStr ''1''), (''productTitle'', JStr ''Veg Burger''),
                         (''restaurantId'', JStr ''h1'')]]\<rparr>"
  by code_simp

lemma with_distance_unchanged:
  "with_distance restaurants item = Inr item' \<Longrightarrow> item' = item"
  by (auto simp: with_distance_def split: option.splits if_splits)

lemma map_js_with_distance_unchanged:
  "map_js (with_distance restaurants) recs = Inr enriched \<Longrightarrow> enriched = recs"
proof (induction recs arbitrary: enriched)
  case Nil
  then show ?case by simp
next
  case (Cons item recs)
  from Cons.prems obtain item' rest where
    i: "with_distance restaurants item = Inr item'"
    and r: "map_js (with_distance restaurants) recs = Inr rest"
    and e: "enriched = item' # rest"
    by (auto split: sum.splits)
  from with_distance_unchanged[OF i] Cons.IH[OF r] e show ?case by simp
qed

lemma no_distance_in_an_answer:
  assumes "collection_get rt ''fs_food_items'' = Inr docs"
    and "fst (getPersonalizedRecommendations rt (map_of req_query ''query'') (map with_id docs)
                (map_of req_query ''mealType'')) = Inr recs"
    and "status (api_personalized_recommendations rt req_query) = 200"
  shows "api_personalized_recommendations rt req_query = \<lparr>status = 200, body = JArr (map JObj recs)\<rparr>"
proof (cases "truthy (map_of req_query ''lat'') \<and> truthy (map_of req_query ''lon'')")
  case False
  with assms(1,2) show ?thesis by (auto simp: api_personalized_recommendations_def Let_def)
next
  case True
  show ?thesis
  proof (cases "collection_get rt ''fs_hotels''")
    case (Inl e)
    with True assms show ?thesis
      by (simp add: api_personalized_recommendations_def Let_def failed_def)
  next
    case hd: (Inr hotel_docs)
    show ?thesis
    proof (cases "map_js (with_distance (map with_id hotel_docs)) recs")
      case (Inl e)
      with True hd assms show ?thesis
        by (simp add: api_personalized_recommendations_def Let_def failed_def)
    next
      case (Inr enriched)
      from map_js_with_distance_unchanged[OF Inr] Inr True hd assms(1,2) show ?thesis
        by (simp add: api_personalized_recommendations_def Let_def)
    qed
  qed
qed

subsection \<open>POST /api/chat\<close>

text \<open>
  C7, as the code has it: a field counts only when it is truthy. When \<^verbatim>\<open>message\<close> and
  \<^verbatim>\<open>mealType\<close> are both missing or falsy the answer is status 500 with an error message
  and the details of the failure; when one of them is truthy, the menu is fetched and the
  resolver returns a list, the answer is status 200 with that list as
  \<^verbatim>\<open>recommendations\<close>.
\<close>

theorem chat_needs_a_truthy_field:
  "(\<not> truthy (map_of req_body ''message'') \<and> \<not> truthy (map_of req_body ''mealType'') \<longrightarrow>
      api_chat rt req_body =
        \<lparr>status = 500,
         body = JObj [(''error'', JStr ''An error occurred while processing the chat.''),
                      (''details'', JStr ''Message or meal type is required'')]\<rparr>)
   \<and> ((truthy (map_of req_body ''message'') \<or> truthy (map_of req_body ''mealType'')) \<and>
       collection_get rt ''fs_food_items'' = Inr docs \<and>
       fst (getPersonalizedRecommendations rt (map_of req_body ''message'') (map with_id docs)
              (map_of req_body ''mealType'')) = Inr recs \<longrightarrow>
      api_chat rt req_body =
        \<lparr>status = 200, body = JObj [(''recommendations'', JArr (map JObj recs))]\<rparr>)"
  by (auto simp: api_chat_def chat_error_def Let_def)

theorem chat_needs_a_truthy_field_witness:
  "api_chat (example_runtime [] (Inr []) store3) [(''message'', JNull)] =
     \<lparr>status = 500,
      body = JObj [(''error'', JStr ''An error occurred while processing the chat.''),
                   (''details'', JStr ''Message or meal type is required'')]\<rparr>
   \<and> api_chat (example_runtime [(reply4, JArr items4)] (Inr reply4) store3)
        [(''mealType'', JStr ''lunch'')] =
     \<lparr>status = 200,
      body = JObj [(''recommendations'',
                    JArr [JObj [(''id'', JStr ''1''), (''productTitle'', JStr ''Veg Burger''),
                                (''restaurantId'', JStr ''h1'')]])]\<rparr>"
proof -
  have a: "\<not> truthy (map_of [(''message'', JNull)] ''message'') \<and>
           \<not> truthy (map_of [(''message'', JNull)] ''mealType'')"
    by simp
  have b: "truthy (map_of [(''mealType'', JStr ''lunch'')] ''message'') \<or>
           truthy (map_of [(''mealType'', JStr ''lunch'')] ''mealType'')"
    by simp
  have c: "collection_get (example_runtime [(reply4, JArr items4)] (Inr reply4) store3) ''fs_food_items'' =
             Inr [(''1'', [(''productTitle'', JStr ''Veg Burger''), (''restaurantId'', JStr ''h1'')])]"
    by code_simp
  have d: "fst (getPersonalizedRecommendations (example_runtime [(reply4, JArr items4)] (Inr reply4) store3)
                  (map_of [(''mealType'', JStr ''lunch'')] ''message'')
                  (map with_id [(''1'', [(''productTitle'', JStr ''Veg Burger''), (''restaurantId'', JStr ''h1'')])])
                  (map_of [(''mealType'', JStr ''lunch'')] ''mealType'')) =
             Inr [[(''id'', JStr ''1''), (''productTitle'', JStr ''Veg Burger''),
                   (''restaurantId'', JStr ''h1'')]]"
    by code_simp
  from chat_needs_a_truthy_field[of "[(''message'', JNull)]" "example_runtime [] (Inr []) store3"] a
  have first: "api_chat (example_runtime [] (Inr []) store3) [(''message'', JNull)] =
     \<lparr>status = 500,
      body = JObj [(''error'', JStr ''An error occurred while processing the chat.''),
                   (''details'', JStr ''Message or meal type is required'')]\<rparr>"
    by blast
  from chat_needs_a_truthy_field[of "[(''mealType'', JStr ''lunch'')]"
         "example_runtime [(reply4, JArr items4)] (Inr reply4) store3"] b c d
  have "api_chat (example_runtime [(reply4, JArr items4)] (Inr reply4) store3)
        [(''mealType'', JStr ''lunch'')] =
     \<lparr>status = 200,
      body = JObj [(''recommendations'',
                    JArr (map JObj [[(''id'', JStr ''1''), (''productTitle'', JStr ''Veg Burger''),
                                (''restaurantId'', JStr ''h1'')]]))]\<rparr>"
    by blast
  with first show ?thesis by simp
qed

text \<open>
  The claim as it is written fails for a field that is present and empty: the body
  \<^verbatim>\<open>{"message": ""}\<close> is answered with status 500 although the menu can be fetched and
  the model replies with an empty array.
\<close>

theorem chat_empty_message_counterexample:
  "map_of [(''message'', JStr [])] ''message'' = Some (JStr [])
   \<and> collection_get (example_runtime [(''[]'', JArr [])] (Inr ''[]'') store3) ''fs_food_items'' =
       Inr [(''1'', [(''productTitle'', JStr ''Veg Burger''), (''restaurantId'', JStr ''h1'')])]
   \<and> status (api_chat (example_runtime [(''[]'', JArr [])] (Inr ''[]'') store3)
               [(''message'', JStr [])]) = 500"
  by code_simp

lemma chat_truthy_message_resolver_failure:
  "api_chat (example_runtime [] (Inr truncated_reply) store3) [(''message'', JStr ''pizza'')] =
     \<lparr>status = 500,
      body = JObj [(''error'', JStr ''An error occurred while processing the chat.''),
                   (''details'', JStr ''cleanedContent is not defined'')]\<rparr>"
  by code_simp

lemma chat2_needs_the_message:
  "\<not> truthy (map_of req_body ''message'') \<Longrightarrow>
   api_chat2 rt req_body =
     \<lparr>status = 500,
      body = JObj [(''error'', JStr ''An error occurred while processing the chat.''),
                   (''details'', JStr ''Message is required'')]\<rparr>"
  by (simp add: api_chat2_def chat_error_def)

subsection \<open>Places with a zero coordinate\<close>

lemma has_coordinates_nonzero: "has_coordinates place \<Longrightarrow> \<not> zero_coordinate place"
  by (auto simp: has_coordinates_def zero_coordinate_def)

lemma hotels_nonzero: "place \<in> set (hotels docs) \<Longrightarrow> \<not> zero_coordinate place"
  by (auto simp: hotels_def dest: has_coordinates_nonzero)

lemma hotels_without_zero: "hotels (without_zero_coordinates docs) = hotels docs"
proof -
  have "filter has_coordinates (map with_id (filter (\<lambda>doc. \<not> zero_coordinate (with_id doc)) ds)) =
        filter has_coordinates (map with_id ds)" for ds
    by (induction ds) (auto dest: has_coordinates_nonzero)
  then show ?thesis by (simp add: hotels_def without_zero_coordinates_def)
qed

lemma map_of_property: "map_of (property k v) k' = (if k' = k then v else None)"
  by (cases v) auto

lemma hotel_entry_coordinates:
  assumes "hotel_entry rt latitude longitude hotel = Some entry"
  shows "map_of entry ''latitude'' = map_of hotel ''latitude''"
    and "map_of entry ''longitude'' = map_of hotel ''longitude''"
proof -
  from assms obtain metres where
    "entry = property ''id'' (map_of hotel ''id'') @
                [(''name'', or_default (map_of hotel ''hotelName'') (JStr ''Unnamed Hotel'')),
                 (''address'', or_default (map_of hotel ''hotelAddress'') (JStr ''Address not available'')),
                 (''phone'', or_default (map_of hotel ''hotelPhoneNo'') (JStr ''Phone not available'')),
                 (''type'', or_default (map_of hotel ''hotelType'') (JStr ''restaurant''))] @
                property ''latitude'' (map_of hotel ''latitude'') @
                property ''longitude'' (map_of hotel ''longitude'') @
                [(''distance'', JNum (metres / 1000))]"
    by (auto simp: hotel_entry_def split: sum.splits)
  then show "map_of entry ''latitude'' = map_of hotel ''latitude''"
    and "map_of entry ''longitude'' = map_of hotel ''longitude''"
    by (simp_all add: map_add_def map_of_property split: option.splits)
qed

lemma hotel_entry_nonzero:
  assumes "hotel_entry rt latitude longitude hotel = Some entry" and "has_coordinates hotel"
  shows "\<not> zero_coordinate entry"
  using hotel_entry_coordinates[OF assms(1)] has_coordinates_nonzero[OF assms(2)]
  by (simp add: zero_coordinate_def)

lemma nearbyHotels_nonzero:
  assumes "nearbyHotels rt latitude longitude (hotels docs) = Inr entries" and "entry \<in> set entries"
  shows "\<not> zero_coordinate entry"
proof -
  from assms(1) obtain ranked where
    r: "sort_js by_distance (List.map_filter (hotel_entry rt latitude longitude) (hotels docs)) = Inr ranked"
    and e: "entries = take 5 ranked"
    by (auto simp: nearbyHotels_def split: sum.splits)
  from e assms(2) have "entry \<in> set ranked" by (auto dest: in_set_takeD)
  with sort_js_set[OF r] obtain hotel where
    "hotel \<in> set (hotels docs)" and "hotel_entry rt latitude longitude hotel = Some entry"
    by (auto simp: List.map_filter_def)
  then show ?thesis using hotel_entry_nonzero[of rt latitude longitude hotel entry]
    by (simp add: hotels_def)
qed

text \<open>
  C10: a place whose latitude or longitude is the number 0 is treated as a place without
  coordinates. No such place is among the hotels that /api/nearby-hotels measures, leaving
  these places out of the store does not change that list, no entry of its answer has a
  zero coordinate, and /api/personalized-recommendations returns a recommendation of such
  a place as it is.
\<close>

theorem zero_coordinates_count_as_missing:
  "(\<forall>place \<in> set (hotels docs). \<not> zero_coordinate place)
   \<and> hotels (without_zero_coordinates docs) = hotels docs
   \<and> (api_nearby_hotels rt req_query = \<lparr>status = 200, body = JArr entries\<rparr> \<longrightarrow>
        (\<forall>entry \<in> set entries. \<exists>fields. entry = JObj fields \<and> \<not> zero_coordinate fields))
   \<and> (restaurant_of restaurants item = Some restaurant \<and> zero_coordinate restaurant \<longrightarrow>
        with_distance restaurants item = Inr item)"
proof -
  have a: "\<forall>place \<in> set (hotels docs). \<not> zero_coordinate place"
    by (auto dest: hotels_nonzero)
  have b: "hotels (without_zero_coordinates docs) = hotels docs"
    by (rule hotels_without_zero)
  have c: "\<forall>entry \<in> set entries. \<exists>fields. entry = JObj fields \<and> \<not> zero_coordinate fields"
    if resp: "api_nearby_hotels rt req_query = \<lparr>status = 200, body = JArr entries\<rparr>"
  proof (cases "collection_get rt ''fs_hotels''")
    case (Inl e)
    with resp show ?thesis by (simp add: api_nearby_hotels_def failed_def)
  next
    case docs: (Inr ds)
    show ?thesis
    proof (cases "nearbyHotels rt (map_of req_query ''latitude'') (map_of req_query ''longitude'') (hotels ds)")
      case (Inl e)
      with resp docs show ?thesis by (simp add: api_nearby_hotels_def failed_def)
    next
      case (Inr es)
      with resp docs have "entries = map JObj es" by (simp add: api_nearby_hotels_def)
      with nearbyHotels_nonzero[OF Inr] show ?thesis by auto
    qed
  qed
  have d: "with_distance restaurants item = Inr item"
    if "restaurant_of restaurants item = Some restaurant" and "zero_coordinate restaurant"
    using that has_coordinates_nonzero[of restaurant]
    by (auto simp: with_distance_def restaurant_of_def has_coordinates_def)
  show ?thesis
  proof (intro conjI impI)
    show "\<forall>place \<in> set (hotels docs). \<not> zero_coordinate place" by (rule a)
    show "hotels (without_zero_coordinates docs) = hotels docs" by (rule b)
    show "\<forall>entry \<in> set entries. \<exists>fields. entry = JObj fields \<and> \<not> zero_coordinate fields"
      if "api_nearby_hotels rt req_query = \<lparr>status = 200, body = JArr entries\<rparr>"
      using that by (rule c)
    show "with_distance restaurants item = Inr item"
      if "restaurant_of restaurants item = Some restaurant \<and> zero_coordinate restaurant"
      using that d by simp
  qed
qed

theorem zero_coordinates_count_as_missing_witness:
  "hotels hotel_docs = [[(''id'', JStr ''h1''), (''latitude'', JNum (1/2)), (''longitude'', JNum 1)]]
   \<and> \<not> zero_coordinate [(''id'', JStr ''h1''), (''latitude'', JNum (1/2)), (''longitude'', JNum 1)]
   \<and> api_nearby_hotels (example_runtime [] (Inl (Error ''not called'')) store_equator)
        [(''latitude'', JStr ''0''), (''longitude'', JStr ''0'')] =
       \<lparr>status = 200,
        body = JArr [JObj [(''id'', JStr ''h1''), (''name'', JStr ''Unnamed Hotel''),
                           (''address'', JStr ''Address not available''),
                           (''phone'', JStr ''Phone not available''), (''type'', JStr ''restaurant''),
                           (''latitude'', JNum (1/2)), (''longitude'', JNum 1),
                           (''distance'', JNum 111)]]\<rparr>
   \<and> \<not> zero_coordinate [(''id'', JStr ''h1''), (''name'', JStr ''Unnamed Hotel''),
                           (''address'', JStr ''Address not available''),
                           (''phone'', JStr ''Phone not available''), (''type'', JStr ''restaurant''),
                           (''latitude'', JNum (1/2)), (''longitude'', JNum 1),
                           (''distance'', JNum 111)]
   \<and> with_distance (map with_id hotel_docs)
        [(''id'', JStr ''1''), (''productTitle'', JStr ''Veg Burger''), (''restaurantId'', JStr ''h0'')] =
       Inr [(''id'', JStr ''1''), (''productTitle'', JStr ''Veg Burger''), (''restaurantId'', JStr ''h0'')]"
proof -
  note t = zero_coordinates_count_as_missing[of hotel_docs
      "example_runtime [] (Inl (Error ''not called'')) store_equator"
      "[(''latitude'', JStr ''0''), (''longitude'', JStr ''0'')]"
      "[JObj [(''id'', JStr ''h1''), (''name'', JStr ''Unnamed Hotel''),
                           (''address'', JStr ''Address not available''),
                           (''phone'', JStr ''Phone not available''), (''type'', JStr ''restaurant''),
                           (''latitude'', JNum (1/2)), (''longitude'', JNum 1),
                           (''distance'', JNum 111)]]"
      "map with_id hotel_docs"
      "[(''id'', JStr ''1''), (''productTitle'', JStr ''Veg Burger''), (''restaurantId'', JStr ''h0'')]"
      "[(''id'', JStr ''h0''), (''hotelName'', JStr ''Meridian''), (''latitude'', JNum 0), (''longitude'', JNum 0)]"]
  note t1 = t[THEN conjunct1]
    and t2 = t[THEN conjunct2, THEN conjunct1]
    and t3 = t[THEN conjunct2, THEN conjunct2, THEN conjunct1]
    and t4 = t[THEN conjunct2, THEN conjunct2, THEN conjunct2]
  have h: "hotels (without_zero_coordinates hotel_docs) =
             [[(''id'', JStr ''h1''), (''latitude'', JNum (1/2)), (''longitude'', JNum 1)]]"
    by code_simp
  have one: "hotels hotel_docs = [[(''id'', JStr ''h1''), (''latitude'', JNum (1/2)), (''longitude'', JNum 1)]]"
    by (rule trans[OF t2[symmetric] h])
  have two: "\<not> zero_coordinate [(''id'', JStr ''h1''), (''latitude'', JNum (1/2)), (''longitude'', JNum 1)]"
    using t1 unfolding one by simp
  have three: "api_nearby_hotels (example_runtime [] (Inl (Error ''not called'')) store_equator)
        [(''latitude'', JStr ''0''), (''longitude'', JStr ''0'')] =
       \<lparr>status = 200,
        body = JArr [JObj [(''id'', JStr ''h1''), (''name'', JStr ''Unnamed Hotel''),
                           (''address'', JStr ''Address not available''),
                           (''phone'', JStr ''Phone not available''), (''type'', JStr ''restaurant''),
                           (''latitude'', JNum (1/2)), (''longitude'', JNum 1),
                           (''distance'', JNum 111)]]\<rparr>"
    by code_simp
  have four: "\<not> zero_coordinate [(''id'', JStr ''h1''), (''name'', JStr ''Unnamed Hotel''),
                           (''address'', JStr ''Address not available''),
                           (''phone'', JStr ''Phone not available''), (''type'', JStr ''restaurant''),
                           (''latitude'', JNum (1/2)), (''longitude'', JNum 1),
                           (''distance'', JNum 111)]"
    using mp[OF t3 three] by simp
  have r: "restaurant_of (map with_id hotel_docs)
             [(''id'', JStr ''1''), (''productTitle'', JStr ''Veg Burger''), (''restaurantId'', JStr ''h0'')] =
           Some [(''id'', JStr ''h0''), (''hotelName'', JStr ''Meridian''), (''latitude'', JNum 0), (''longitude'', JNum 0)]"
    by code_simp
  have z: "zero_coordinate [(''id'', JStr ''h0''), (''hotelName'', JStr ''Meridian''), (''latitude'', JNum 0), (''longitude'', JNum 0)]"
    by code_simp
  have five: "with_distance (map with_id hotel_docs)
        [(''id'', JStr ''1''), (''productTitle'', JStr ''Veg Burger''), (''restaurantId'', JStr ''h0'')] =
       Inr [(''id'', JStr ''1''), (''productTitle'', JStr ''Veg Burger''), (''restaurantId'', JStr ''h0'')]"
    by (rule mp[OF t4 conjI[OF r z]])
  show ?thesis
    by (intro conjI one two three four five)
qed

lemma personalized_recommendations_zero_coordinate:
  "api_personalized_recommendations (example_runtime [] (Inl (Error ''not called'')) store_equator)
     [(''query'', JStr ''burger''), (''lat'', JStr ''0.1''), (''lon'', JStr ''0.1'')] =
     \<lparr>status = 200,
      body = JArr [JObj [(''id'', JStr ''1''), (''productTitle'', JStr ''Veg Burger''),
                         (''restaurantId'', JStr ''h0'')]]\<rparr>"
  by code_simp

end
